theory Spec2Isabelle
  imports Complex_Main "HOL-Library.AList"
begin

section \<open>Shared data: jobs and job requests\<close>

text \<open>
  The constants of \<^verbatim>\<open>gearman.constants\<close> and the classes \<^verbatim>\<open>GearmanJob\<close> and
  \<^verbatim>\<open>GearmanJobRequest\<close> are imported by the sources but declared elsewhere; their
  fields are taken from the way the handlers read and write them and from the data
  model of the specification.  Connections, command handlers and job requests are
  Python objects compared and shared by identity, so each is a reference (a natural
  number).  A job request owns its job: no two requests share one job object.  A job's
  handle is \<open>None\<close> until the server has assigned one.
\<close>

datatype job_state = JOB_PENDING | JOB_QUEUED | JOB_FAILED | JOB_COMPLETE

datatype priority = PRIORITY_LOW | PRIORITY_NORMAL | PRIORITY_HIGH

type_synonym connection_ref = nat
type_synonym handler_ref = nat
type_synonym request_ref = nat

record 'd gearman_job =
  connection :: connection_ref
  handle :: "string option"
  task :: string
  unique :: string
  data :: 'd

record 'f status_res =
  status_handle :: string
  known :: bool
  running :: bool
  numerator :: 'f
  denominator :: 'f
  time_received :: 'f

record ('d, 'f) job_request =
  job :: "'d gearman_job"
  state :: job_state
  background :: bool
  priority :: priority
  data_updates :: "'d list"
  warning_updates :: "'d list"
  status_updates :: "('f \<times> 'f) list"
  result :: "'d option"
  exception :: "'d option"
  server_status :: "'f status_res option"

section \<open>The client command handler (gearman/client\_handler.py)\<close>

datatype cmd_type =
    GEARMAN_COMMAND_SUBMIT_JOB
  | GEARMAN_COMMAND_SUBMIT_JOB_BG
  | GEARMAN_COMMAND_SUBMIT_JOB_HIGH
  | GEARMAN_COMMAND_SUBMIT_JOB_HIGH_BG
  | GEARMAN_COMMAND_SUBMIT_JOB_LOW
  | GEARMAN_COMMAND_SUBMIT_JOB_LOW_BG

text \<open>
  Modelled from the spec: \<^verbatim>\<open>submit_cmd_for_background_priority\<close> of
  \<^verbatim>\<open>gearman.protocol\<close> is missing from the sources; it "selects the correct SUBMIT\_JOB
  variant from (background, priority)".
\<close>

fun submit_cmd_for_background_priority :: "bool \<Rightarrow> priority \<Rightarrow> cmd_type" where
  "submit_cmd_for_background_priority False PRIORITY_NORMAL = GEARMAN_COMMAND_SUBMIT_JOB"
| "submit_cmd_for_background_priority True PRIORITY_NORMAL = GEARMAN_COMMAND_SUBMIT_JOB_BG"
| "submit_cmd_for_background_priority False PRIORITY_HIGH = GEARMAN_COMMAND_SUBMIT_JOB_HIGH"
| "submit_cmd_for_background_priority True PRIORITY_HIGH = GEARMAN_COMMAND_SUBMIT_JOB_HIGH_BG"
| "submit_cmd_for_background_priority False PRIORITY_LOW = GEARMAN_COMMAND_SUBMIT_JOB_LOW"
| "submit_cmd_for_background_priority True PRIORITY_LOW = GEARMAN_COMMAND_SUBMIT_JOB_LOW_BG"

text \<open>
  An exception is a value: its class, and for \<^verbatim>\<open>InvalidClientState\<close> the format string
  of the message with the arguments it is applied to.  \<^verbatim>\<open>KeyError\<close> is what indexing
  \<^verbatim>\<open>handle_to_request_map\<close> raises on a missing key and \<^verbatim>\<open>ValueError\<close> what
  \<^verbatim>\<open>float\<close> raises on a string that is not a number.
\<close>

datatype msg_arg = Arg_handle "string option" | Arg_state job_state

datatype client_error =
    InvalidClientState string "msg_arg list"
  | KeyError string
  | ValueError string

text \<open>
  The handler's own fields are the deque \<open>requests_awaiting_handles\<close> and the dict
  \<open>handle_to_request_map\<close>; both hold references to request objects that the caller
  shares, so the objects live in a store \<open>requests\<close>.  \<open>sent_commands\<close> records the calls
  of \<^verbatim>\<open>send_command\<close> (inherited from the base handler) in order, each with its
  keyword arguments.
\<close>

record ('d, 'f) client_handler =
  requests :: "request_ref \<Rightarrow> ('d, 'f) job_request"
  requests_awaiting_handles :: "request_ref list"
  handle_to_request_map :: "string \<rightharpoonup> request_ref"
  sent_commands :: "(cmd_type \<times> (string \<times> string) list) list"

type_synonym ('d, 'f) client_result = "(client_error + bool) \<times> ('d, 'f) client_handler"

text \<open>
  \<open>encode_data\<close>, \<open>decode_data\<close> (the hooks of the base handler), Python's \<open>float\<close>
  on a string (\<open>None\<close> where it raises \<^verbatim>\<open>ValueError\<close>) are parameters of the functions
  that call them.
\<close>

definition send_job_request ::
  "('d \<Rightarrow> string) \<Rightarrow> ('d, 'f) client_handler \<Rightarrow> request_ref \<Rightarrow> ('d, 'f) client_handler" where
  "send_job_request encode_data self current_request =
    (let gearman_job = job (requests self current_request);
         cmd_type = submit_cmd_for_background_priority
                 (background (requests self current_request))
                 (priority (requests self current_request));
         outbound_data = encode_data (data gearman_job);
         self1 = self\<lparr>sent_commands := sent_commands self @
                   [(cmd_type, [(''task'', task gearman_job), (''unique'', unique gearman_job),
                           (''data'', outbound_data)])]\<rparr>
     in self1\<lparr>requests_awaiting_handles := requests_awaiting_handles self1 @ [current_request]\<rparr>)"

definition assert_request_state :: "('d, 'f) job_request \<Rightarrow> job_state \<Rightarrow> client_error option" where
  "assert_request_state current_request expected_state =
    (if state current_request \<noteq> expected_state
     then Some (InvalidClientState ''Expected handle (%s) to be in state %r, got %s''
                  [Arg_handle (handle (job current_request)), Arg_state expected_state,
                   Arg_state (state current_request)])
     else None)"

definition recv_job_created :: "('d, 'f) client_handler \<Rightarrow> string \<Rightarrow> ('d, 'f) client_result" where
  "recv_job_created self job_handle =
    (case requests_awaiting_handles self of
       [] \<Rightarrow> (Inl (InvalidClientState ''Received a job_handle with no pending requests'' []), self)
     | current_request # rest \<Rightarrow>
         (let self1 = self\<lparr>requests_awaiting_handles := rest\<rparr>;
              req = requests self1 current_request
          in case assert_request_state req JOB_PENDING of
               Some e \<Rightarrow> (Inl e, self1)
             | None \<Rightarrow>
                 (Inr True,
                  self1\<lparr>requests := (requests self1)
                           (current_request :=
                              req\<lparr>job := (job req)\<lparr>handle := Some job_handle\<rparr>, state := JOB_QUEUED\<rparr>),
                        handle_to_request_map :=
                          (handle_to_request_map self1)(job_handle \<mapsto> current_request)\<rparr>)))"

definition recv_work_data ::
  "(string \<Rightarrow> 'd) \<Rightarrow> ('d, 'f) client_handler \<Rightarrow> string \<Rightarrow> string \<Rightarrow> ('d, 'f) client_result" where
  "recv_work_data decode_data self job_handle dat =
    (case handle_to_request_map self job_handle of
       None \<Rightarrow> (Inl (KeyError job_handle), self)
     | Some current_request \<Rightarrow>
         (let req = requests self current_request
          in case assert_request_state req JOB_QUEUED of
               Some e \<Rightarrow> (Inl e, self)
             | None \<Rightarrow>
                 (Inr True,
                  self\<lparr>requests := (requests self)
                          (current_request := req\<lparr>data_updates := data_updates req @ [decode_data dat]\<rparr>)\<rparr>)))"

definition recv_work_warning ::
  "(string \<Rightarrow> 'd) \<Rightarrow> ('d, 'f) client_handler \<Rightarrow> string \<Rightarrow> string \<Rightarrow> ('d, 'f) client_result" where
  "recv_work_warning decode_data self job_handle dat =
    (case handle_to_request_map self job_handle of
       None \<Rightarrow> (Inl (KeyError job_handle), self)
     | Some current_request \<Rightarrow>
         (let req = requests self current_request
          in case assert_request_state req JOB_QUEUED of
               Some e \<Rightarrow> (Inl e, self)
             | None \<Rightarrow>
                 (Inr True,
                  self\<lparr>requests := (requests self)
                          (current_request :=
                             req\<lparr>warning_updates := warning_updates req @ [decode_data dat]\<rparr>)\<rparr>)))"

definition recv_work_status ::
  "(string \<Rightarrow> 'f option) \<Rightarrow> ('d, 'f) client_handler \<Rightarrow> string \<Rightarrow> string \<Rightarrow> string
     \<Rightarrow> ('d, 'f) client_result" where
  "recv_work_status py_float self job_handle num den =
    (case handle_to_request_map self job_handle of
       None \<Rightarrow> (Inl (KeyError job_handle), self)
     | Some current_request \<Rightarrow>
         (let req = requests self current_request
          in case assert_request_state req JOB_QUEUED of
               Some e \<Rightarrow> (Inl e, self)
             | None \<Rightarrow>
                 (case py_float num of
                    None \<Rightarrow> (Inl (ValueError num), self)
                  | Some n \<Rightarrow>
                      (case py_float den of
                         None \<Rightarrow> (Inl (ValueError den), self)
                       | Some d \<Rightarrow>
                           (Inr True,
                            self\<lparr>requests := (requests self)
                                    (current_request :=
                                       req\<lparr>status_updates := status_updates req @ [(n, d)]\<rparr>)\<rparr>)))))"

definition recv_work_complete ::
  "(string \<Rightarrow> 'd) \<Rightarrow> ('d, 'f) client_handler \<Rightarrow> string \<Rightarrow> string \<Rightarrow> ('d, 'f) client_result" where
  "recv_work_complete decode_data self job_handle dat =
    (case handle_to_request_map self job_handle of
       None \<Rightarrow> (Inl (KeyError job_handle), self)
     | Some current_request \<Rightarrow>
         (let req = requests self current_request
          in case assert_request_state req JOB_QUEUED of
               Some e \<Rightarrow> (Inl e, self)
             | None \<Rightarrow>
                 (Inr True,
                  self\<lparr>requests := (requests self)
                          (current_request :=
                             req\<lparr>result := Some (decode_data dat), state := JOB_COMPLETE\<rparr>)\<rparr>)))"

definition recv_work_fail :: "('d, 'f) client_handler \<Rightarrow> string \<Rightarrow> ('d, 'f) client_result" where
  "recv_work_fail self job_handle =
    (case handle_to_request_map self job_handle of
       None \<Rightarrow> (Inl (KeyError job_handle), self)
     | Some current_request \<Rightarrow>
         (let req = requests self current_request
          in case assert_request_state req JOB_QUEUED of
               Some e \<Rightarrow> (Inl e, self)
             | None \<Rightarrow>
                 (Inr True,
                  self\<lparr>requests := (requests self)
                          (current_request := req\<lparr>state := JOB_FAILED\<rparr>)\<rparr>)))"

definition recv_work_exception ::
  "(string \<Rightarrow> 'd) \<Rightarrow> ('d, 'f) client_handler \<Rightarrow> string \<Rightarrow> string \<Rightarrow> ('d, 'f) client_result" where
  "recv_work_exception decode_data self job_handle dat =
    (case handle_to_request_map self job_handle of
       None \<Rightarrow> (Inl (KeyError job_handle), self)
     | Some current_request \<Rightarrow>
         (let req = requests self current_request
          in case assert_request_state req JOB_QUEUED of
               Some e \<Rightarrow> (Inl e, self)
             | None \<Rightarrow>
                 (Inr True,
                  self\<lparr>requests := (requests self)
                          (current_request := req\<lparr>exception := Some (decode_data dat)\<rparr>)\<rparr>)))"

text \<open>\<open>now\<close> is the reading of \<^verbatim>\<open>time.time()\<close> at the call.\<close>

definition recv_status_res ::
  "(string \<Rightarrow> 'f option) \<Rightarrow> 'f \<Rightarrow> ('d, 'f) client_handler \<Rightarrow> string \<Rightarrow> string \<Rightarrow> string
     \<Rightarrow> string \<Rightarrow> string \<Rightarrow> ('d, 'f) client_result" where
  "recv_status_res py_float now self job_handle kn rn num den =
    (case handle_to_request_map self job_handle of
       None \<Rightarrow> (Inl (KeyError job_handle), self)
     | Some current_request \<Rightarrow>
         (let req = requests self current_request
          in case assert_request_state req JOB_QUEUED of
               Some e \<Rightarrow> (Inl e, self)
             | None \<Rightarrow>
                 (case py_float num of
                    None \<Rightarrow> (Inl (ValueError num), self)
                  | Some n \<Rightarrow>
                      (case py_float den of
                         None \<Rightarrow> (Inl (ValueError den), self)
                       | Some d \<Rightarrow>
                           (Inr True,
                            self\<lparr>requests := (requests self)
                                    (current_request :=
                                       req\<lparr>server_status := Some
                                         \<lparr>status_handle = job_handle, known = (kn = ''1''),
                                          running = (rn = ''1''), numerator = n,
                                          denominator = d, time_received = now\<rparr>\<rparr>)\<rparr>)))))"

subsection \<open>Sequences of inbound commands\<close>

text \<open>
  The connection poller dispatches each inbound frame to the \<^verbatim>\<open>recv_\<close> method named
  after its command.  A frame is the command with its fields; \<open>Status_res\<close> also carries
  the clock reading taken while it is handled.  An exception raised by one callback
  leaves the handler as the callback left it, and later frames are handled from there.
\<close>

datatype 'f frame =
    Job_created string
  | Work_data string string
  | Work_warning string string
  | Work_status string string string
  | Work_complete string string
  | Work_fail string
  | Work_exception string string
  | Status_res string string string string string 'f

fun recv ::
  "(string \<Rightarrow> 'd) \<Rightarrow> (string \<Rightarrow> 'f option) \<Rightarrow> ('d, 'f) client_handler \<Rightarrow> 'f frame
     \<Rightarrow> ('d, 'f) client_result" where
  "recv dec flt self (Job_created h) = recv_job_created self h"
| "recv dec flt self (Work_data h d) = recv_work_data dec self h d"
| "recv dec flt self (Work_warning h d) = recv_work_warning dec self h d"
| "recv dec flt self (Work_status h n d) = recv_work_status flt self h n d"
| "recv dec flt self (Work_complete h d) = recv_work_complete dec self h d"
| "recv dec flt self (Work_fail h) = recv_work_fail self h"
| "recv dec flt self (Work_exception h d) = recv_work_exception dec self h d"
| "recv dec flt self (Status_res h k r n d t) = recv_status_res flt t self h k r n d"

fun recv_all ::
  "(string \<Rightarrow> 'd) \<Rightarrow> (string \<Rightarrow> 'f option) \<Rightarrow> ('d, 'f) client_handler \<Rightarrow> 'f frame list
     \<Rightarrow> (client_error + bool) list \<times> ('d, 'f) client_handler" where
  "recv_all dec flt self [] = ([], self)"
| "recv_all dec flt self (f # fs) =
    (case recv dec flt self f of
       (r, self1) \<Rightarrow> (case recv_all dec flt self1 fs of (rs, self2) \<Rightarrow> (r # rs, self2)))"

text \<open>
  The transitions the lifecycle permits in one step, and the order they generate:
  PENDING before QUEUED before the two terminal states.
\<close>

fun permitted :: "job_state \<Rightarrow> job_state \<Rightarrow> bool" where
  "permitted JOB_PENDING JOB_QUEUED = True"
| "permitted JOB_QUEUED JOB_COMPLETE = True"
| "permitted JOB_QUEUED JOB_FAILED = True"
| "permitted a b = (a = b)"

fun state_le :: "job_state \<Rightarrow> job_state \<Rightarrow> bool" where
  "state_le JOB_PENDING b = True"
| "state_le JOB_QUEUED b = (b \<noteq> JOB_PENDING)"
| "state_le a b = (a = b)"

definition terminal :: "job_state \<Rightarrow> bool" where
  "terminal st = (st = JOB_COMPLETE \<or> st = JOB_FAILED)"

section \<open>The worker (gearman/worker.py)\<close>

text \<open>
  A registered callback is user code: it may return a result, raise an exception that
  \<^verbatim>\<open>except Exception\<close> catches, or raise one outside the \<^verbatim>\<open>Exception\<close> hierarchy
  (\<^verbatim>\<open>KeyboardInterrupt\<close>, \<^verbatim>\<open>SystemExit\<close>), which that clause lets through.
\<close>

datatype ('d, 'e) outcome = Returned 'd | Raised_Exception 'e | Raised_BaseException 'e

datatype 'd worker_command =
    RESET_ABILITIES
  | CAN_DO string
  | WORK_COMPLETE "string option" 'd
  | WORK_FAIL "string option"
  | WORK_EXCEPTION "string option" 'd
  | WORK_DATA "string option" 'd
  | WORK_WARNING "string option" 'd

text \<open>
  \<open>Connection_KeyError\<close> is the \<^verbatim>\<open>KeyError\<close> of indexing \<^verbatim>\<open>connection_to_handler_map\<close>
  with a connection it does not hold; \<open>Uncaught\<close> is a callback's exception that
  \<^verbatim>\<open>on_job_execute\<close> does not catch.
\<close>

datatype 'e worker_error = Connection_KeyError connection_ref | Uncaught 'e

record initial_state =
  abilities :: "string list"
  client_id :: "string option"

text \<open>
  \<open>worker_abilities\<close> is a dict from task names to callbacks, kept as an association
  list with one entry per key, so that \<^verbatim>\<open>keys()\<close> is the list of its first components.
  \<open>handler_to_connection_map\<close> is iterated and tested for membership, so it is an
  association list too; \<open>connection_to_handler_map\<close> is only indexed.  Both maps and
  \<open>handler_initial_state\<close> belong to the base connection manager.  \<open>outbound\<close> records,
  in order, every command a command handler of this worker has sent.
\<close>

record ('cb, 'd) worker =
  worker_abilities :: "(string \<times> 'cb) list"
  worker_client_id :: "string option"
  command_handler_holding_job_lock :: "handler_ref option"
  handler_initial_state :: initial_state
  handler_to_connection_map :: "(handler_ref \<times> connection_ref) list"
  connection_to_handler_map :: "connection_ref \<rightharpoonup> handler_ref"
  outbound :: "(handler_ref \<times> 'd worker_command) list"

subsection \<open>The worker's command handlers\<close>

text \<open>
  The methods of \<^verbatim>\<open>GearmanWorkerCommandHandler\<close> (gearman/worker\_handler.py) that the
  worker calls are missing from the sources.  Each is modelled as the command it puts on
  its connection, recorded with the handler in \<open>outbound\<close>.
\<close>

text \<open>
  Modelled from the spec: \<^verbatim>\<open>set_abilities\<close> of the worker command handler is missing.
  "On ability change, it sends RESET\_ABILITIES then re-registers", with "CAN\_DO for
  each registered ability".
\<close>

definition handler_set_abilities ::
  "('cb, 'd) worker \<Rightarrow> handler_ref \<Rightarrow> string list \<Rightarrow> ('cb, 'd) worker" where
  "handler_set_abilities self command_handler task_list =
     self\<lparr>outbound := outbound self @
            (command_handler, RESET_ABILITIES) # map (\<lambda>a. (command_handler, CAN_DO a)) task_list\<rparr>"

text \<open>
  Modelled from the spec: \<^verbatim>\<open>send_job_complete\<close> of the worker command handler is
  missing.  "callback returns b"cba"; worker sends WORK\_COMPLETE (H,"cba")".
\<close>

definition handler_send_job_complete ::
  "('cb, 'd) worker \<Rightarrow> handler_ref \<Rightarrow> 'd gearman_job \<Rightarrow> 'd \<Rightarrow> ('cb, 'd) worker" where
  "handler_send_job_complete self command_handler current_job dat =
     self\<lparr>outbound := outbound self @ [(command_handler, WORK_COMPLETE (handle current_job) dat)]\<rparr>"

text \<open>
  Modelled from the spec: \<^verbatim>\<open>send_job_failure\<close> of the worker command handler is
  missing.  "worker callback raises; worker sends WORK\_FAIL (H)".
\<close>

definition handler_send_job_failure ::
  "('cb, 'd) worker \<Rightarrow> handler_ref \<Rightarrow> 'd gearman_job \<Rightarrow> ('cb, 'd) worker" where
  "handler_send_job_failure self command_handler current_job =
     self\<lparr>outbound := outbound self @ [(command_handler, WORK_FAIL (handle current_job))]\<rparr>"

text \<open>
  Modelled from the spec: \<^verbatim>\<open>send_job_exception\<close> of the worker command handler is
  missing.  It emits the WORK\_EXCEPTION of "send WORK\_FAIL (and optionally
  WORK\_EXCEPTION)", with the job's handle and the data.
\<close>

definition handler_send_job_exception ::
  "('cb, 'd) worker \<Rightarrow> handler_ref \<Rightarrow> 'd gearman_job \<Rightarrow> 'd \<Rightarrow> ('cb, 'd) worker" where
  "handler_send_job_exception self command_handler current_job dat =
     self\<lparr>outbound := outbound self @ [(command_handler, WORK_EXCEPTION (handle current_job) dat)]\<rparr>"

text \<open>
  Modelled from the spec: \<^verbatim>\<open>send_job_data\<close> and \<^verbatim>\<open>send_job_warning\<close> of the worker
  command handler are missing.  "the callback may synchronously emit WORK\_DATA,
  WORK\_WARNING, WORK\_STATUS(num, den) via the manager's send-through methods; these
  write directly to the connection's out buffer".
\<close>

definition handler_send_job_data ::
  "('cb, 'd) worker \<Rightarrow> handler_ref \<Rightarrow> 'd gearman_job \<Rightarrow> 'd \<Rightarrow> ('cb, 'd) worker" where
  "handler_send_job_data self command_handler current_job dat =
     self\<lparr>outbound := outbound self @ [(command_handler, WORK_DATA (handle current_job) dat)]\<rparr>"

definition handler_send_job_warning ::
  "('cb, 'd) worker \<Rightarrow> handler_ref \<Rightarrow> 'd gearman_job \<Rightarrow> 'd \<Rightarrow> ('cb, 'd) worker" where
  "handler_send_job_warning self command_handler current_job dat =
     self\<lparr>outbound := outbound self @ [(command_handler, WORK_WARNING (handle current_job) dat)]\<rparr>"

subsection \<open>Registering and unregistering tasks\<close>

definition update_initial_state :: "('cb, 'd) worker \<Rightarrow> ('cb, 'd) worker" where
  "update_initial_state self =
     self\<lparr>handler_initial_state :=
            (handler_initial_state self)\<lparr>abilities := map fst (worker_abilities self),
                                         client_id := worker_client_id self\<rparr>\<rparr>"

definition set_abilities_on_all :: "('cb, 'd) worker \<Rightarrow> ('cb, 'd) worker" where
  "set_abilities_on_all self =
     foldl (\<lambda>w command_handler.
              handler_set_abilities w command_handler (abilities (handler_initial_state w)))
       self (map fst (handler_to_connection_map self))"

definition register_task :: "('cb, 'd) worker \<Rightarrow> string \<Rightarrow> 'cb \<Rightarrow> string \<times> ('cb, 'd) worker" where
  "register_task self tk callback_function =
     (tk, set_abilities_on_all (update_initial_state
            (self\<lparr>worker_abilities := AList.update tk callback_function (worker_abilities self)\<rparr>)))"

definition unregister_task :: "('cb, 'd) worker \<Rightarrow> string \<Rightarrow> string \<times> ('cb, 'd) worker" where
  "unregister_task self tk =
     (tk, set_abilities_on_all (update_initial_state
            (self\<lparr>worker_abilities := AList.delete tk (worker_abilities self)\<rparr>)))"

subsection \<open>Sending job updates\<close>

definition get_handler_for_job ::
  "('cb, 'd) worker \<Rightarrow> 'd gearman_job \<Rightarrow> 'e worker_error + handler_ref" where
  "get_handler_for_job self current_job =
     (case connection_to_handler_map self (connection current_job) of
        None \<Rightarrow> Inl (Connection_KeyError (connection current_job))
      | Some current_handler \<Rightarrow> Inr current_handler)"

definition send_job_complete ::
  "('cb, 'd) worker \<Rightarrow> 'd gearman_job \<Rightarrow> 'd \<Rightarrow> ('e worker_error + unit) \<times> ('cb, 'd) worker" where
  "send_job_complete self current_job dat =
     (case get_handler_for_job self current_job of
        Inl e \<Rightarrow> (Inl e, self)
      | Inr current_handler \<Rightarrow>
          (Inr (), handler_send_job_complete self current_handler current_job dat))"

definition send_job_failure ::
  "('cb, 'd) worker \<Rightarrow> 'd gearman_job \<Rightarrow> ('e worker_error + unit) \<times> ('cb, 'd) worker" where
  "send_job_failure self current_job =
     (case get_handler_for_job self current_job of
        Inl e \<Rightarrow> (Inl e, self)
      | Inr current_handler \<Rightarrow>
          (Inr (), handler_send_job_failure self current_handler current_job))"

definition send_job_exception ::
  "('cb, 'd) worker \<Rightarrow> 'd gearman_job \<Rightarrow> 'd \<Rightarrow> ('e worker_error + unit) \<times> ('cb, 'd) worker" where
  "send_job_exception self current_job dat =
     (case get_handler_for_job self current_job of
        Inl e \<Rightarrow> (Inl e, self)
      | Inr current_handler \<Rightarrow>
          (let self1 = handler_send_job_exception self current_handler current_job dat
           in (Inr (), handler_send_job_failure self1 current_handler current_job)))"

definition send_job_data ::
  "('cb, 'd) worker \<Rightarrow> 'd gearman_job \<Rightarrow> 'd \<Rightarrow> ('e worker_error + unit) \<times> ('cb, 'd) worker" where
  "send_job_data self current_job dat =
     (case get_handler_for_job self current_job of
        Inl e \<Rightarrow> (Inl e, self)
      | Inr current_handler \<Rightarrow>
          (Inr (), handler_send_job_data self current_handler current_job dat))"

definition send_job_warning ::
  "('cb, 'd) worker \<Rightarrow> 'd gearman_job \<Rightarrow> 'd \<Rightarrow> ('e worker_error + unit) \<times> ('cb, 'd) worker" where
  "send_job_warning self current_job dat =
     (case get_handler_for_job self current_job of
        Inl e \<Rightarrow> (Inl e, self)
      | Inr current_handler \<Rightarrow>
          (Inr (), handler_send_job_warning self current_handler current_job dat))"

subsection \<open>Executing a job\<close>

definition on_job_exception ::
  "('cb, 'd) worker \<Rightarrow> 'd gearman_job \<Rightarrow> ('e worker_error + bool) \<times> ('cb, 'd) worker" where
  "on_job_exception self current_job =
     (case send_job_failure self current_job of
        (Inl e, self1) \<Rightarrow> (Inl e, self1)
      | (Inr u, self1) \<Rightarrow> (Inr False, self1))"

definition on_job_complete ::
  "('cb, 'd) worker \<Rightarrow> 'd gearman_job \<Rightarrow> 'd \<Rightarrow> ('e worker_error + bool) \<times> ('cb, 'd) worker" where
  "on_job_complete self current_job job_result =
     (case send_job_complete self current_job job_result of
        (Inl e, self1) \<Rightarrow> (Inl e, self1)
      | (Inr u, self1) \<Rightarrow> (Inr True, self1))"

text \<open>
  \<open>call\<close> runs a registered callback on a job: the callback is arbitrary code that may
  use the worker while it runs, so it yields its outcome together with the worker as it
  leaves it.  A task without a callback makes the lookup raise \<^verbatim>\<open>KeyError\<close> inside the
  \<^verbatim>\<open>try\<close>, which the \<^verbatim>\<open>except\<close> clause catches like a callback's exception.
\<close>

definition on_job_execute ::
  "('cb \<Rightarrow> 'd gearman_job \<Rightarrow> ('cb, 'd) worker \<Rightarrow> ('d, 'e) outcome \<times> ('cb, 'd) worker)
     \<Rightarrow> ('cb, 'd) worker \<Rightarrow> 'd gearman_job \<Rightarrow> ('e worker_error + bool) \<times> ('cb, 'd) worker" where
  "on_job_execute call self current_job =
     (case map_of (worker_abilities self) (task current_job) of
        None \<Rightarrow> on_job_exception self current_job
      | Some function_callback \<Rightarrow>
          (case call function_callback current_job self of
             (Returned job_result, self1) \<Rightarrow> on_job_complete self1 current_job job_result
           | (Raised_Exception e, self1) \<Rightarrow> on_job_exception self1 current_job
           | (Raised_BaseException e, self1) \<Rightarrow> (Inl (Uncaught e), self1)))"

subsection \<open>The job lock\<close>

definition set_job_lock ::
  "('cb, 'd) worker \<Rightarrow> handler_ref \<Rightarrow> bool \<Rightarrow> bool \<times> ('cb, 'd) worker" where
  "set_job_lock self command_handler lock =
     (if command_handler \<notin> fst ` set (handler_to_connection_map self) then (False, self)
      else
        (let failed_lock = (lock \<and> command_handler_holding_job_lock self \<noteq> None);
             failed_unlock =
               (\<not> lock \<and> command_handler_holding_job_lock self \<noteq> Some command_handler)
         in if failed_lock \<or> failed_unlock then (False, self)
            else if lock
              then (True, self\<lparr>command_handler_holding_job_lock := Some command_handler\<rparr>)
              else (True, self\<lparr>command_handler_holding_job_lock := None\<rparr>)))"

definition check_job_lock :: "('cb, 'd) worker \<Rightarrow> handler_ref \<Rightarrow> bool" where
  "check_job_lock self command_handler =
     (command_handler_holding_job_lock self = Some command_handler)"

section \<open>The admin client (gearman/admin\_client.py)\<close>

text \<open>
  The command constants of \<^verbatim>\<open>gearman.protocol\<close> are names here; their values are not
  in the sources.
\<close>

datatype admin_command =
    GEARMAN_COMMAND_ECHO_REQ
  | GEARMAN_COMMAND_ECHO_RES
  | GEARMAN_SERVER_COMMAND_STATUS
  | GEARMAN_SERVER_COMMAND_VERSION
  | GEARMAN_SERVER_COMMAND_WORKERS
  | GEARMAN_SERVER_COMMAND_MAXQUEUE
  | GEARMAN_SERVER_COMMAND_SHUTDOWN

text \<open>
  A parsed response is a text (echo, version) or a list of rows, each a dict from field
  names to values (status, workers).
\<close>

datatype admin_response = Response_text string | Response_rows "(string \<times> string) list list"

datatype 't admin_arg = Arg_seconds 't | Arg_command admin_command | Arg_response admin_response
  | Arg_text string

text \<open>
  \<open>InvalidAdminClientState\<close> carries the format string of its message and the arguments
  the format is applied to.
\<close>

datatype 't admin_error = InvalidAdminClientState string "'t admin_arg list" | IndexError

text \<open>
  Modelled from the spec: \<^verbatim>\<open>GearmanAdminClientCommandHandler\<close>
  (gearman/admin\_client\_handler.py) is missing from the sources.  Its state is
  "(pending\_commands: FIFO of expected response types, response\_ready: bool,
  response\_queue: FIFO of (type, parsed\_response))".  \<open>sent_lines\<close> records what was
  sent: a text command as its words, an echo request as its payload.
\<close>

record admin_handler =
  pending_commands :: "admin_command list"
  response_ready :: bool
  response_queue :: "(admin_command \<times> admin_response) list"
  sent_lines :: "(admin_command \<times> string list) list"

text \<open>
  Modelled from the spec: \<^verbatim>\<open>send_text_command\<close> and \<^verbatim>\<open>send_echo_request\<close> of the admin
  handler are missing.  "Caller sends one admin command (text or ECHO\_REQ binary).
  Handler appends the expected response kind to pending\_commands and sets
  response\_ready = false."
\<close>

definition send_text_command ::
  "admin_handler \<Rightarrow> admin_command \<Rightarrow> string list \<Rightarrow> admin_handler" where
  "send_text_command h cmd args =
     h\<lparr>pending_commands := pending_commands h @ [cmd], response_ready := False,
       sent_lines := sent_lines h @ [(cmd, args)]\<rparr>"

definition send_echo_request :: "admin_handler \<Rightarrow> string \<Rightarrow> admin_handler" where
  "send_echo_request h echo_string =
     h\<lparr>pending_commands := pending_commands h @ [GEARMAN_COMMAND_ECHO_REQ],
       response_ready := False,
       sent_lines := sent_lines h @ [(GEARMAN_COMMAND_ECHO_REQ, [echo_string])]\<rparr>"

text \<open>
  Modelled from the spec: \<^verbatim>\<open>pop_response\<close> of the admin handler is missing.  The
  caller "pops the response" at the head of the response queue, and "response\_ready on
  an admin handler is true \<open>\<Leftrightarrow>\<close> a parsed response sits in the response queue", so
  the flag follows what is left.  The spec does not say what popping an empty queue does;
  it is the \<^verbatim>\<open>IndexError\<close> of an empty deque here.
\<close>

definition pop_response ::
  "admin_handler \<Rightarrow> ('t admin_error + admin_command \<times> admin_response) \<times> admin_handler" where
  "pop_response h =
     (case response_queue h of
        [] \<Rightarrow> (Inl IndexError, h)
      | x # rest \<Rightarrow> (Inr x, h\<lparr>response_queue := rest, response_ready := (rest \<noteq> [])\<rparr>))"

record 't admin_client =
  admin_client_timeout :: 't
  current_handler :: admin_handler

definition ECHO_STRING :: string where
  "ECHO_STRING = ''ping? pong!''"

text \<open>
  \<^verbatim>\<open>poll_connections_until_stopped\<close> belongs to the base connection manager: it drives
  the connection's I/O, which reaches the admin client only through the handler it
  dispatches responses to.  It is a parameter: given the stop predicate and the timeout,
  it takes the handler to the handler as the poll leaves it.
\<close>

type_synonym 't poller = "(admin_handler \<Rightarrow> bool) \<Rightarrow> 't \<Rightarrow> admin_handler \<Rightarrow> admin_handler"

definition wait_until_server_responds ::
  "'t poller \<Rightarrow> 't admin_client \<Rightarrow> admin_command
     \<Rightarrow> ('t admin_error + admin_response) \<times> 't admin_client" where
  "wait_until_server_responds poll_connections_until_stopped self expected_type =
     (let continue_while_no_response = (\<lambda>h. \<not> response_ready h);
          self1 = self\<lparr>current_handler :=
                    poll_connections_until_stopped continue_while_no_response
                      (admin_client_timeout self) (current_handler self)\<rparr>
      in if \<not> response_ready (current_handler self1)
         then (Inl (InvalidAdminClientState ''Admin client timed out after %f second(s)''
                      [Arg_seconds (admin_client_timeout self1)]), self1)
         else
           (case pop_response (current_handler self1) of
              (Inl e, h2) \<Rightarrow> (Inl e, self1\<lparr>current_handler := h2\<rparr>)
            | (Inr (cmd_type, cmd_resp), h2) \<Rightarrow>
                if cmd_type \<noteq> expected_type
                then (Inl (InvalidAdminClientState
                             ''Received an unexpected response... got command %r, expecting command %r''
                             [Arg_command cmd_type, Arg_command expected_type]),
                      self1\<lparr>current_handler := h2\<rparr>)
                else (Inr cmd_resp, self1\<lparr>current_handler := h2\<rparr>)))"

text \<open>The public calls: each sends one command and waits for its response.\<close>

definition send_maxqueue ::
  "'t poller \<Rightarrow> 't admin_client \<Rightarrow> string \<Rightarrow> string
     \<Rightarrow> ('t admin_error + admin_response) \<times> 't admin_client" where
  "send_maxqueue poll self tk max_size =
     wait_until_server_responds poll
       (self\<lparr>current_handler :=
          send_text_command (current_handler self) GEARMAN_SERVER_COMMAND_MAXQUEUE [tk, max_size]\<rparr>)
       GEARMAN_SERVER_COMMAND_MAXQUEUE"

definition send_shutdown ::
  "'t poller \<Rightarrow> 't admin_client \<Rightarrow> bool \<Rightarrow> ('t admin_error + admin_response) \<times> 't admin_client" where
  "send_shutdown poll self graceful =
     wait_until_server_responds poll
       (self\<lparr>current_handler :=
          send_text_command (current_handler self) GEARMAN_SERVER_COMMAND_SHUTDOWN
            (if graceful then [''graceful''] else [])\<rparr>)
       GEARMAN_SERVER_COMMAND_SHUTDOWN"

definition get_status ::
  "'t poller \<Rightarrow> 't admin_client \<Rightarrow> ('t admin_error + admin_response) \<times> 't admin_client" where
  "get_status poll self =
     wait_until_server_responds poll
       (self\<lparr>current_handler :=
          send_text_command (current_handler self) GEARMAN_SERVER_COMMAND_STATUS []\<rparr>)
       GEARMAN_SERVER_COMMAND_STATUS"

definition get_version ::
  "'t poller \<Rightarrow> 't admin_client \<Rightarrow> ('t admin_error + admin_response) \<times> 't admin_client" where
  "get_version poll self =
     wait_until_server_responds poll
       (self\<lparr>current_handler :=
          send_text_command (current_handler self) GEARMAN_SERVER_COMMAND_VERSION []\<rparr>)
       GEARMAN_SERVER_COMMAND_VERSION"

definition get_workers ::
  "'t poller \<Rightarrow> 't admin_client \<Rightarrow> ('t admin_error + admin_response) \<times> 't admin_client" where
  "get_workers poll self =
     wait_until_server_responds poll
       (self\<lparr>current_handler :=
          send_text_command (current_handler self) GEARMAN_SERVER_COMMAND_WORKERS []\<rparr>)
       GEARMAN_SERVER_COMMAND_WORKERS"

text \<open>
  \<open>start_time\<close> and \<open>end_time\<close> are the two readings of \<^verbatim>\<open>time.time()\<close>; the result
  is their difference.
\<close>

definition ping_server ::
  "'t poller \<Rightarrow> 't \<Rightarrow> 't \<Rightarrow> ('t::minus) admin_client \<Rightarrow> ('t admin_error + 't) \<times> 't admin_client" where
  "ping_server poll start_time end_time self =
     (case wait_until_server_responds poll
             (self\<lparr>current_handler := send_echo_request (current_handler self) ECHO_STRING\<rparr>)
             GEARMAN_COMMAND_ECHO_REQ of
        (Inl e, self1) \<Rightarrow> (Inl e, self1)
      | (Inr server_response, self1) \<Rightarrow>
          if server_response \<noteq> Response_text ECHO_STRING
          then (Inl (InvalidAdminClientState ''Echo string mismatch: got %s, expected %s''
                       [Arg_response server_response, Arg_text ECHO_STRING]), self1)
          else (Inr (end_time - start_time), self1))"

section \<open>Auxiliary definitions for the proofs\<close>

fun raises_InvalidClientState :: "client_error + bool \<Rightarrow> bool" where
  "raises_InvalidClientState (Inl (InvalidClientState fmt args)) = True"
| "raises_InvalidClientState r = False"

text \<open>
  The invariant of a run of \<open>k\<close> JOB\_CREATED frames with handles \<open>hs\<close> over the queue
  \<open>rs\<close> of distinct pending requests of \<open>s1\<close>: \<open>p\<close> is the list of results with the
  handler reached.
\<close>

definition created_inv ::
  "('d, 'f) client_handler \<Rightarrow> request_ref list \<Rightarrow> string list \<Rightarrow> nat
     \<Rightarrow> (client_error + bool) list \<times> ('d, 'f) client_handler \<Rightarrow> bool" where
  "created_inv s1 rs hs k p \<longleftrightarrow>
     fst p = replicate k (Inr True) \<and>
     requests_awaiting_handles (snd p) = drop k rs \<and>
     (\<forall>j<k. requests (snd p) (rs ! j) =
        (requests s1 (rs ! j))\<lparr>job := (job (requests s1 (rs ! j)))\<lparr>handle := Some (hs ! j)\<rparr>,
                               state := JOB_QUEUED\<rparr>) \<and>
     (\<forall>r. r \<notin> set (take k rs) \<longrightarrow> requests (snd p) r = requests s1 r) \<and>
     (distinct hs \<longrightarrow> (\<forall>j<k. handle_to_request_map (snd p) (hs ! j) = Some (rs ! j)))"

subsection \<open>Concrete states\<close>

definition example_job :: "string gearman_job" where
  "example_job = \<lparr>connection = 5, handle = None, task = ''reverse'', unique = '''', data = ''abc''\<rparr>"

definition example_request :: "(string, real) job_request" where
  "example_request =
     \<lparr>job = example_job, state = JOB_PENDING, background = False, priority = PRIORITY_NORMAL,
      data_updates = [], warning_updates = [], status_updates = [], result = None,
      exception = None, server_status = None\<rparr>"

definition fresh_client_handler :: "(string, real) client_handler" where
  "fresh_client_handler =
     \<lparr>requests = (\<lambda>r. example_request), requests_awaiting_handles = [],
      handle_to_request_map = Map.empty, sent_commands = []\<rparr>"

definition example_float :: "string \<Rightarrow> real option" where
  "example_float s = (if s = ''3'' then Some 3 else if s = ''10'' then Some 10 else None)"

definition queued_client_handler :: "(string, real) client_handler" where
  "queued_client_handler =
     snd (recv_job_created (send_job_request id fresh_client_handler 0) ''H:1'')"

definition completed_client_handler :: "(string, real) client_handler" where
  "completed_client_handler = snd (recv_work_complete id queued_client_handler ''H:1'' ''done'')"

text \<open>
  A worker with one connection (5, handled by handler 1) and three tasks: callback 0
  sends a WORK\_DATA update through the worker and returns the reversed payload,
  callback 1 raises an \<^verbatim>\<open>Exception\<close>, and callback 2 leaves with \<^verbatim>\<open>SystemExit\<close>, which
  is not an \<^verbatim>\<open>Exception\<close>.
\<close>

definition example_worker :: "(nat, string) worker" where
  "example_worker =
     \<lparr>worker_abilities = [(''reverse'', 0), (''explode'', 1), (''quit'', 2)],
      worker_client_id = None,
      command_handler_holding_job_lock = None,
      handler_initial_state =
        \<lparr>abilities = [''reverse'', ''explode'', ''quit''], client_id = None\<rparr>,
      handler_to_connection_map = [(1, 5)], connection_to_handler_map = [5 \<mapsto> 1],
      outbound = []\<rparr>"

definition example_call ::
  "nat \<Rightarrow> string gearman_job \<Rightarrow> (nat, string) worker
     \<Rightarrow> (string, string) outcome \<times> (nat, string) worker" where
  "example_call cb j w =
     (if cb = 0
      then (Returned (rev (data j)),
            snd (send_job_data w j ''half'' :: (string worker_error + unit) \<times> (nat, string) worker))
      else if cb = 1 then (Raised_Exception ''boom'', w)
      else (Raised_BaseException ''SystemExit'', w))"

definition reverse_job :: "string gearman_job" where
  "reverse_job =
     \<lparr>connection = 5, handle = Some ''H:1'', task = ''reverse'', unique = '''', data = ''abc''\<rparr>"

definition explode_job :: "string gearman_job" where
  "explode_job =
     \<lparr>connection = 5, handle = Some ''H:2'', task = ''explode'', unique = '''', data = ''abc''\<rparr>"

definition quit_job :: "string gearman_job" where
  "quit_job =
     \<lparr>connection = 5, handle = Some ''H:4'', task = ''quit'', unique = '''', data = ''abc''\<rparr>"

definition stray_job :: "string gearman_job" where
  "stray_job =
     \<lparr>connection = 9, handle = Some ''H:3'', task = ''reverse'', unique = '''', data = ''abc''\<rparr>"

text \<open>
  An admin client with a timeout of 0.1 seconds, a server that stays silent and a server
  that answers every poll with a version response.
\<close>

definition example_admin_client :: "real admin_client" where
  "example_admin_client =
     \<lparr>admin_client_timeout = 1 / 10,
      current_handler = \<lparr>pending_commands = [], response_ready = False, response_queue = [],
                         sent_lines = []\<rparr>\<rparr>"

definition silent_poll :: "real poller" where
  "silent_poll continue timeout h = h"

definition version_poll :: "real poller" where
  "version_poll continue timeout h =
     h\<lparr>response_queue := response_queue h @ [(GEARMAN_SERVER_COMMAND_VERSION, Response_text ''0.13'')],
       response_ready := True\<rparr>"

section \<open>Properties of the client command handler\<close>

subsection \<open>Submission order\<close>

lemma send_job_request_fields:
  "requests_awaiting_handles (send_job_request enc self r) = requests_awaiting_handles self @ [r]"
  "requests (send_job_request enc self r) = requests self"
  "handle_to_request_map (send_job_request enc self r) = handle_to_request_map self"
  by (simp_all add: send_job_request_def Let_def)

lemma foldl_send_job_request_fields:
  "requests_awaiting_handles (foldl (send_job_request enc) self rs) = requests_awaiting_handles self @ rs"
  "requests (foldl (send_job_request enc) self rs) = requests self"
  "handle_to_request_map (foldl (send_job_request enc) self rs) = handle_to_request_map self"
  by (induction rs arbitrary: self) (simp_all add: send_job_request_fields)

lemma recv_job_created_empty:
  "requests_awaiting_handles self = [] \<Longrightarrow>
   recv_job_created self h =
     (Inl (InvalidClientState ''Received a job_handle with no pending requests'' []), self)"
  by (simp add: recv_job_created_def)

lemma recv_job_created_head:
  assumes "requests_awaiting_handles self = r # rest" "state (requests self r) = JOB_PENDING"
  shows "recv_job_created self h =
     (Inr True,
      self\<lparr>requests_awaiting_handles := rest,
           requests := (requests self)
             (r := (requests self r)\<lparr>job := (job (requests self r))\<lparr>handle := Some h\<rparr>,
                                      state := JOB_QUEUED\<rparr>),
           handle_to_request_map := (handle_to_request_map self)(h \<mapsto> r)\<rparr>)"
  using assms by (simp add: recv_job_created_def Let_def assert_request_state_def)

lemma recv_job_created_pops:
  "requests_awaiting_handles (snd (recv_job_created self h)) = tl (requests_awaiting_handles self)"
  by (simp add: recv_job_created_def Let_def split: list.splits option.splits)

lemma recv_all_append:
  "recv_all dec flt self (xs @ ys) =
     (fst (recv_all dec flt self xs) @ fst (recv_all dec flt (snd (recv_all dec flt self xs)) ys),
      snd (recv_all dec flt (snd (recv_all dec flt self xs)) ys))"
  by (induction xs arbitrary: self) (simp_all split: prod.splits)

lemma recv_all_single:
  "recv_all dec flt self [f] = ([fst (recv dec flt self f)], snd (recv dec flt self f))"
  by (simp split: prod.splits)

lemma recv_all_snd_Cons:
  "snd (recv_all dec flt self (f # fs)) = snd (recv_all dec flt (snd (recv dec flt self f)) fs)"
  by (simp split: prod.splits)

lemma job_created_all_pops:
  "requests_awaiting_handles (snd (recv_all dec flt self (map Job_created hs))) =
     drop (length hs) (requests_awaiting_handles self)"
proof (induction hs arbitrary: self)
  case Nil
  show ?case by simp
next
  case (Cons h hs)
  show ?case
    by (simp only: list.map recv_all_snd_Cons recv.simps Cons.IH recv_job_created_pops)
       (simp add: drop_Suc)
qed

lemma created_inv_holds:
  assumes aw: "requests_awaiting_handles s1 = rs"
    and dist: "distinct rs"
    and pend: "\<forall>r\<in>set rs. state (requests s1 r) = JOB_PENDING"
    and len: "length hs = length rs"
  shows "k \<le> length rs \<Longrightarrow>
    created_inv s1 rs hs k (recv_all dec flt s1 (map Job_created (take k hs)))"
proof (induction k)
  case 0
  show ?case using aw by (simp add: created_inv_def)
next
  case (Suc k)
  then have k: "k < length rs" by simp
  let ?p = "recv_all dec flt s1 (map Job_created (take k hs))"
  let ?sk = "snd ?p"
  have inv: "created_inv s1 rs hs k ?p" using Suc by simp
  have old: "\<forall>j<k. rs ! j \<noteq> rs ! k"
    using dist k by (auto simp: nth_eq_iff_index_eq)
  have notin: "rs ! k \<notin> set (take k rs)"
    using old k by (auto simp: in_set_conv_nth)
  have aw_k: "requests_awaiting_handles ?sk = rs ! k # drop (Suc k) rs"
    using inv k by (simp add: created_inv_def Cons_nth_drop_Suc)
  have req_k: "requests ?sk (rs ! k) = requests s1 (rs ! k)"
    using inv notin by (simp add: created_inv_def)
  have pend_k: "state (requests ?sk (rs ! k)) = JOB_PENDING"
    using req_k pend k by simp
  have step: "recv_job_created ?sk (hs ! k) =
     (Inr True,
      ?sk\<lparr>requests_awaiting_handles := drop (Suc k) rs,
           requests := (requests ?sk)
             (rs ! k := (requests ?sk (rs ! k))\<lparr>job := (job (requests ?sk (rs ! k)))\<lparr>handle := Some (hs ! k)\<rparr>,
                                      state := JOB_QUEUED\<rparr>),
           handle_to_request_map := (handle_to_request_map ?sk)(hs ! k \<mapsto> rs ! k)\<rparr>)"
    by (rule recv_job_created_head [OF aw_k pend_k])
  have tk: "take (Suc k) hs = take k hs @ [hs ! k]"
    using k len by (simp add: take_Suc_conv_app_nth)
  have tkr: "take (Suc k) rs = take k rs @ [rs ! k]"
    using k by (simp add: take_Suc_conv_app_nth)
  have run: "recv_all dec flt s1 (map Job_created (take (Suc k) hs)) =
     (fst ?p @ [Inr True], snd (recv_job_created ?sk (hs ! k)))"
    by (simp add: tk recv_all_append recv_all_single step)
  have oldh: "distinct hs \<Longrightarrow> \<forall>j<k. hs ! j \<noteq> hs ! k"
    using k len by (auto simp: nth_eq_iff_index_eq)
  show ?case
    unfolding created_inv_def run
    using inv old req_k oldh
    by (auto simp: created_inv_def step tkr less_Suc_eq replicate_append_same)
qed

lemma queued_client_handler_eq:
  "queued_client_handler =
     \<lparr>requests = (\<lambda>r. example_request)
        (0 := example_request\<lparr>job := example_job\<lparr>handle := Some ''H:1''\<rparr>, state := JOB_QUEUED\<rparr>),
      requests_awaiting_handles = [],
      handle_to_request_map = [''H:1'' \<mapsto> 0],
      sent_commands = [(GEARMAN_COMMAND_SUBMIT_JOB,
         [(''task'', ''reverse''), (''unique'', ''''), (''data'', ''abc'')])]\<rparr>"
  by (simp add: queued_client_handler_def recv_job_created_def send_job_request_def
      fresh_client_handler_def example_request_def example_job_def assert_request_state_def Let_def)

text \<open>
  C1.  A handler with an empty queue is sent the requests \<open>rs\<close> with
  \<^verbatim>\<open>send_job_request\<close> and then receives JOB\_CREATED with the handles \<open>hs\<close>, one per
  request.  After the sends the queue is \<open>rs\<close>.  The \<open>k\<close>-th \<^verbatim>\<open>recv_job_created\<close> finds
  the \<open>k\<close>-th submitted request at the head of the queue and pops it; if that request is
  still PENDING the call returns \<^verbatim>\<open>True\<close>, gives the request the \<open>k\<close>-th handle, moves
  it to QUEUED and records it in \<open>handle_to_request_map\<close> under that handle, changing
  nothing else.  When the requests are distinct objects that were all PENDING, each is
  still PENDING at its turn, every call returns \<^verbatim>\<open>True\<close>, and at the end the request at
  position \<open>k\<close> is QUEUED with the \<open>k\<close>-th handle (and indexed under it when the handles
  are distinct).  The queue is empty after the last call, and one more
  \<^verbatim>\<open>recv_job_created\<close> raises \<^verbatim>\<open>InvalidClientState\<close> and leaves the handler as it is.
\<close>

theorem submit_ordering:
  assumes empty: "requests_awaiting_handles self = []"
    and len: "length hs = length rs"
    and k: "k < length rs"
    and s1: "s1 = foldl (send_job_request enc) self rs"
    and sk: "sk = snd (recv_all dec flt s1 (map Job_created (take k hs)))"
    and sN: "sN = snd (recv_all dec flt s1 (map Job_created hs))"
  shows "requests_awaiting_handles s1 = rs \<and>
    requests_awaiting_handles sk = rs ! k # drop (Suc k) rs \<and>
    (state (requests sk (rs ! k)) = JOB_PENDING \<longrightarrow>
       recv_job_created sk (hs ! k) =
         (Inr True,
          sk\<lparr>requests_awaiting_handles := drop (Suc k) rs,
             requests := (requests sk)
               (rs ! k := (requests sk (rs ! k))
                  \<lparr>job := (job (requests sk (rs ! k)))\<lparr>handle := Some (hs ! k)\<rparr>,
                   state := JOB_QUEUED\<rparr>),
             handle_to_request_map := (handle_to_request_map sk)(hs ! k \<mapsto> rs ! k)\<rparr>)) \<and>
    (distinct rs \<and> (\<forall>r\<in>set rs. state (requests self r) = JOB_PENDING) \<longrightarrow>
       state (requests sk (rs ! k)) = JOB_PENDING \<and>
       fst (recv_all dec flt s1 (map Job_created hs)) = replicate (length rs) (Inr True) \<and>
       requests_awaiting_handles sN = [] \<and>
       handle (job (requests sN (rs ! k))) = Some (hs ! k) \<and>
       state (requests sN (rs ! k)) = JOB_QUEUED \<and>
       (distinct hs \<longrightarrow> handle_to_request_map sN (hs ! k) = Some (rs ! k))) \<and>
    (requests_awaiting_handles sN = [] \<and>
     recv_job_created sN h =
       (Inl (InvalidClientState ''Received a job_handle with no pending requests'' []), sN))"
proof -
  have aw1: "requests_awaiting_handles s1 = rs"
    using empty by (simp add: s1 foldl_send_job_request_fields)
  have req1: "requests s1 = requests self"
    by (simp add: s1 foldl_send_job_request_fields)
  have awk: "requests_awaiting_handles sk = rs ! k # drop (Suc k) rs"
    using k len by (simp add: sk job_created_all_pops aw1 Cons_nth_drop_Suc)
  have awN: "requests_awaiting_handles sN = []"
    using len by (simp add: sN job_created_all_pops aw1)
  have step: "recv_job_created sk (hs ! k) =
         (Inr True,
          sk\<lparr>requests_awaiting_handles := drop (Suc k) rs,
             requests := (requests sk)
               (rs ! k := (requests sk (rs ! k))
                  \<lparr>job := (job (requests sk (rs ! k)))\<lparr>handle := Some (hs ! k)\<rparr>,
                   state := JOB_QUEUED\<rparr>),
             handle_to_request_map := (handle_to_request_map sk)(hs ! k \<mapsto> rs ! k)\<rparr>)"
    if "state (requests sk (rs ! k)) = JOB_PENDING"
    by (rule recv_job_created_head [OF awk that])
  have all: "state (requests sk (rs ! k)) = JOB_PENDING \<and>
       fst (recv_all dec flt s1 (map Job_created hs)) = replicate (length rs) (Inr True) \<and>
       handle (job (requests sN (rs ! k))) = Some (hs ! k) \<and>
       state (requests sN (rs ! k)) = JOB_QUEUED \<and>
       (distinct hs \<longrightarrow> handle_to_request_map sN (hs ! k) = Some (rs ! k))"
    if dist: "distinct rs" and pend: "\<forall>r\<in>set rs. state (requests self r) = JOB_PENDING"
  proof -
    have pend1: "\<forall>r\<in>set rs. state (requests s1 r) = JOB_PENDING"
      using pend by (simp add: req1)
    have invk: "created_inv s1 rs hs k (recv_all dec flt s1 (map Job_created (take k hs)))"
      using created_inv_holds [OF aw1 dist pend1 len, of k] k by simp
    have invN: "created_inv s1 rs hs (length rs) (recv_all dec flt s1 (map Job_created hs))"
      using created_inv_holds [OF aw1 dist pend1 len, of "length rs"] len by simp
    have "rs ! k \<notin> set (take k rs)"
      using dist k by (auto simp: in_set_conv_nth nth_eq_iff_index_eq)
    then have "requests sk (rs ! k) = requests s1 (rs ! k)"
      using invk by (simp add: created_inv_def sk)
    then have "state (requests sk (rs ! k)) = JOB_PENDING"
      using pend1 k by simp
    then show ?thesis
      using invN k by (simp add: created_inv_def sN)
  qed
  show ?thesis
    using aw1 awk awN step all recv_job_created_empty [OF awN] by blast
qed

theorem submit_ordering_witness:
  "requests_awaiting_handles fresh_client_handler = [] \<and>
   distinct [0::nat, 1] \<and>
   state (requests fresh_client_handler 0) = JOB_PENDING \<and>
   state (requests fresh_client_handler 1) = JOB_PENDING \<and>
   requests_awaiting_handles
     (snd (recv_all id example_float
        (foldl (send_job_request id) fresh_client_handler [0, 1]) [Job_created ''H:1''])) = [1] \<and>
   fst (recv_job_created
     (snd (recv_all id example_float
        (foldl (send_job_request id) fresh_client_handler [0, 1]) [Job_created ''H:1''])) ''H:2'')
     = Inr True \<and>
   handle_to_request_map
     (snd (recv_all id example_float
        (foldl (send_job_request id) fresh_client_handler [0, 1])
        [Job_created ''H:1'', Job_created ''H:2''])) ''H:2'' = Some 1 \<and>
   handle (job (requests
     (snd (recv_all id example_float
        (foldl (send_job_request id) fresh_client_handler [0, 1])
        [Job_created ''H:1'', Job_created ''H:2''])) 1)) = Some ''H:2''"
proof -
  have e: "requests_awaiting_handles fresh_client_handler = []"
    by (simp add: fresh_client_handler_def)
  have p: "state (requests fresh_client_handler 0) = JOB_PENDING"
    "state (requests fresh_client_handler 1) = JOB_PENDING"
    by (simp_all add: fresh_client_handler_def example_request_def)
  note t = submit_ordering [OF e, of "[''H:1'', ''H:2'']" "[0, 1]" 1 _ id _ id example_float _ "''H:3''",
      OF _ _ refl refl refl]
  show ?thesis using t e p by simp
qed

subsection \<open>State monotonicity\<close>

lemma permitted_refl: "permitted a a"
  by (cases a) simp_all

lemma recv_job_created_permitted:
  "permitted (state (requests self r)) (state (requests (snd (recv_job_created self h)) r))"
  by (auto simp: recv_job_created_def Let_def assert_request_state_def permitted_refl
      split: list.splits)

lemma recv_work_data_state:
  "state (requests (snd (recv_work_data dec self h d)) r) = state (requests self r)"
  by (auto simp: recv_work_data_def Let_def assert_request_state_def split: option.splits)

lemma recv_work_warning_state:
  "state (requests (snd (recv_work_warning dec self h d)) r) = state (requests self r)"
  by (auto simp: recv_work_warning_def Let_def assert_request_state_def split: option.splits)

lemma recv_work_status_state:
  "state (requests (snd (recv_work_status flt self h n d)) r) = state (requests self r)"
  by (auto simp: recv_work_status_def Let_def assert_request_state_def split: option.splits)

lemma recv_work_exception_state:
  "state (requests (snd (recv_work_exception dec self h d)) r) = state (requests self r)"
  by (auto simp: recv_work_exception_def Let_def assert_request_state_def split: option.splits)

lemma recv_status_res_state:
  "state (requests (snd (recv_status_res flt t self h k rn n d)) r) = state (requests self r)"
  by (auto simp: recv_status_res_def Let_def assert_request_state_def split: option.splits)

lemma recv_work_complete_permitted:
  "permitted (state (requests self r)) (state (requests (snd (recv_work_complete dec self h d)) r))"
  by (auto simp: recv_work_complete_def Let_def assert_request_state_def permitted_refl
      split: option.splits)

lemma recv_work_fail_permitted:
  "permitted (state (requests self r)) (state (requests (snd (recv_work_fail self h)) r))"
  by (auto simp: recv_work_fail_def Let_def assert_request_state_def permitted_refl
      split: option.splits)

lemma recv_permitted:
  "permitted (state (requests self r)) (state (requests (snd (recv dec flt self f)) r))"
  by (cases f)
    (simp_all add: recv_job_created_permitted recv_work_complete_permitted
      recv_work_fail_permitted recv_work_data_state recv_work_warning_state
      recv_work_status_state recv_work_exception_state recv_status_res_state permitted_refl)

lemma permitted_state_le: "permitted a b \<Longrightarrow> state_le a b"
  by (cases a; cases b) simp_all

lemma state_le_trans: "state_le a b \<Longrightarrow> state_le b c \<Longrightarrow> state_le a c"
  by (cases a; cases b; cases c) simp_all

lemma state_le_refl: "state_le a a"
  by (cases a) simp_all

lemma state_le_terminal: "terminal a \<Longrightarrow> state_le a b \<Longrightarrow> b = a"
  by (cases a; cases b) (simp_all add: terminal_def)

text \<open>The order is exactly reachability along permitted transitions.\<close>

lemma state_le_iff_rtranclp: "state_le a b \<longleftrightarrow> permitted\<^sup>*\<^sup>* a b"
proof
  assume "state_le a b"
  then consider "a = b" | "permitted a b" | "a = JOB_PENDING" "b = JOB_COMPLETE \<or> b = JOB_FAILED"
    by (cases a; cases b) simp_all
  then show "permitted\<^sup>*\<^sup>* a b"
  proof cases
    case 3
    have "permitted JOB_PENDING JOB_QUEUED" "permitted JOB_QUEUED b" using 3 by auto
    then show ?thesis using 3 by (meson converse_rtranclp_into_rtranclp r_into_rtranclp)
  qed auto
next
  assume "permitted\<^sup>*\<^sup>* a b"
  then show "state_le a b"
    by (induction rule: rtranclp_induct) (auto intro: state_le_refl state_le_trans permitted_state_le)
qed

lemma recv_all_state_le:
  "state_le (state (requests self r)) (state (requests (snd (recv_all dec flt self fs)) r))"
proof (induction fs arbitrary: self)
  case Nil
  show ?case by (simp add: state_le_refl)
next
  case (Cons f fs)
  have "state_le (state (requests self r)) (state (requests (snd (recv dec flt self f)) r))"
    by (rule permitted_state_le [OF recv_permitted])
  from state_le_trans [OF this Cons.IH] show ?case
    by (simp only: recv_all_snd_Cons)
qed

lemma not_queued_raises:
  assumes "handle_to_request_map self h = Some r" "state (requests self r) \<noteq> JOB_QUEUED"
  shows "raises_InvalidClientState (fst (recv_work_data dec self h d))"
    "snd (recv_work_data dec self h d) = self"
    "raises_InvalidClientState (fst (recv_work_warning dec self h d))"
    "snd (recv_work_warning dec self h d) = self"
    "raises_InvalidClientState (fst (recv_work_status flt self h n m))"
    "snd (recv_work_status flt self h n m) = self"
    "raises_InvalidClientState (fst (recv_work_complete dec self h d))"
    "snd (recv_work_complete dec self h d) = self"
    "raises_InvalidClientState (fst (recv_work_fail self h))"
    "snd (recv_work_fail self h) = self"
    "raises_InvalidClientState (fst (recv_work_exception dec self h d))"
    "snd (recv_work_exception dec self h d) = self"
  using assms
  by (simp_all add: recv_work_data_def recv_work_warning_def recv_work_status_def
      recv_work_complete_def recv_work_fail_def recv_work_exception_def
      assert_request_state_def Let_def)

text \<open>
  C2.  For every job request \<open>r\<close> in the store and every inbound frame, one
  \<^verbatim>\<open>recv_\<close> call either leaves the state of \<open>r\<close> as it is or moves it along PENDING
  to QUEUED, QUEUED to COMPLETE or QUEUED to FAILED.  Over every sequence of frames,
  whether the calls return or raise, the state never moves backward, and a request that
  is COMPLETE or FAILED keeps its state.  Each \<^verbatim>\<open>recv_work_\<close> call for a handle whose
  request is not QUEUED raises \<^verbatim>\<open>InvalidClientState\<close> and changes nothing.
\<close>

theorem state_monotonicity:
  "permitted (state (requests self r)) (state (requests (snd (recv dec flt self f)) r)) \<and>
   state_le (state (requests self r)) (state (requests (snd (recv_all dec flt self fs)) r)) \<and>
   (terminal (state (requests self r)) \<longrightarrow>
      state (requests (snd (recv_all dec flt self fs)) r) = state (requests self r)) \<and>
   (handle_to_request_map self h = Some r \<and> state (requests self r) \<noteq> JOB_QUEUED \<longrightarrow>
      raises_InvalidClientState (fst (recv_work_data dec self h d)) \<and>
      snd (recv_work_data dec self h d) = self \<and>
      raises_InvalidClientState (fst (recv_work_warning dec self h d)) \<and>
      snd (recv_work_warning dec self h d) = self \<and>
      raises_InvalidClientState (fst (recv_work_status flt self h n m)) \<and>
      snd (recv_work_status flt self h n m) = self \<and>
      raises_InvalidClientState (fst (recv_work_complete dec self h d)) \<and>
      snd (recv_work_complete dec self h d) = self \<and>
      raises_InvalidClientState (fst (recv_work_fail self h)) \<and>
      snd (recv_work_fail self h) = self \<and>
      raises_InvalidClientState (fst (recv_work_exception dec self h d)) \<and>
      snd (recv_work_exception dec self h d) = self)"
proof -
  have le: "state_le (state (requests self r)) (state (requests (snd (recv_all dec flt self fs)) r))"
    by (rule recv_all_state_le)
  have "state (requests (snd (recv_all dec flt self fs)) r) = state (requests self r)"
    if "terminal (state (requests self r))"
    by (rule state_le_terminal [OF that le])
  moreover have "raises_InvalidClientState (fst (recv_work_data dec self h d)) \<and>
      snd (recv_work_data dec self h d) = self \<and>
      raises_InvalidClientState (fst (recv_work_warning dec self h d)) \<and>
      snd (recv_work_warning dec self h d) = self \<and>
      raises_InvalidClientState (fst (recv_work_status flt self h n m)) \<and>
      snd (recv_work_status flt self h n m) = self \<and>
      raises_InvalidClientState (fst (recv_work_complete dec self h d)) \<and>
      snd (recv_work_complete dec self h d) = self \<and>
      raises_InvalidClientState (fst (recv_work_fail self h)) \<and>
      snd (recv_work_fail self h) = self \<and>
      raises_InvalidClientState (fst (recv_work_exception dec self h d)) \<and>
      snd (recv_work_exception dec self h d) = self"
    if "handle_to_request_map self h = Some r" "state (requests self r) \<noteq> JOB_QUEUED"
    by (simp add: not_queued_raises [OF that])
  ultimately show ?thesis
    using recv_permitted [of self r dec flt f] le by blast
qed

lemma completed_client_handler_eq:
  "completed_client_handler =
     \<lparr>requests = (\<lambda>r. example_request)
        (0 := example_request\<lparr>job := example_job\<lparr>handle := Some ''H:1''\<rparr>, state := JOB_COMPLETE,
                               result := Some ''done''\<rparr>),
      requests_awaiting_handles = [],
      handle_to_request_map = [''H:1'' \<mapsto> 0],
      sent_commands = [(GEARMAN_COMMAND_SUBMIT_JOB,
         [(''task'', ''reverse''), (''unique'', ''''), (''data'', ''abc'')])]\<rparr>"
  by (simp add: completed_client_handler_def queued_client_handler_eq recv_work_complete_def
      assert_request_state_def Let_def example_request_def)

theorem state_monotonicity_witness:
  "terminal (state (requests completed_client_handler 0)) \<and>
   handle_to_request_map completed_client_handler ''H:1'' = Some 0 \<and>
   state (requests completed_client_handler 0) \<noteq> JOB_QUEUED \<and>
   state (requests (snd (recv_all id example_float completed_client_handler
      [Work_fail ''H:1'', Job_created ''H:2'', Work_data ''H:1'' ''x''])) 0) = JOB_COMPLETE \<and>
   raises_InvalidClientState (fst (recv_work_fail completed_client_handler ''H:1'')) \<and>
   snd (recv_work_fail completed_client_handler ''H:1'') = completed_client_handler"
proof -
  have c: "terminal (state (requests completed_client_handler 0))"
    "handle_to_request_map completed_client_handler ''H:1'' = Some 0"
    "state (requests completed_client_handler 0) \<noteq> JOB_QUEUED"
    "state (requests completed_client_handler 0) = JOB_COMPLETE"
    by (simp_all add: completed_client_handler_eq terminal_def)
  show ?thesis
    using c state_monotonicity [of completed_client_handler 0 id example_float
        "Work_fail ''H:1''" "[Work_fail ''H:1'', Job_created ''H:2'', Work_data ''H:1'' ''x'']"
        "''H:1''" "''x''" "''3''" "''10''"]
    by simp
qed

subsection \<open>Updates of a queued request\<close>

text \<open>
  C3 (amended).  For a handle \<open>h0\<close> that \<open>handle_to_request_map\<close> does not hold, each
  of \<^verbatim>\<open>recv_work_data\<close>, \<^verbatim>\<open>recv_work_warning\<close> and \<^verbatim>\<open>recv_work_status\<close> raises the
  \<^verbatim>\<open>KeyError\<close> of the dict lookup and leaves the handler unchanged.  For a handle \<open>h\<close>
  whose request is QUEUED, \<^verbatim>\<open>recv_work_data\<close> appends the decoded data to
  \<open>data_updates\<close>, \<^verbatim>\<open>recv_work_warning\<close> appends it to \<open>warning_updates\<close>, and
  \<^verbatim>\<open>recv_work_status\<close> appends the pair of the two numbers to \<open>status_updates\<close>
  when \<^verbatim>\<open>float\<close> converts both strings; each call returns \<^verbatim>\<open>True\<close>, changes
  nothing else, and the request stays QUEUED.
\<close>

theorem recv_work_updates:
  "(handle_to_request_map self h0 = None \<longrightarrow>
      recv_work_data dec self h0 d = (Inl (KeyError h0), self) \<and>
      recv_work_warning dec self h0 d = (Inl (KeyError h0), self) \<and>
      recv_work_status flt self h0 n m = (Inl (KeyError h0), self)) \<and>
   (handle_to_request_map self h = Some r \<and> state (requests self r) = JOB_QUEUED \<longrightarrow>
      recv_work_data dec self h d =
        (Inr True,
         self\<lparr>requests := (requests self)
           (r := (requests self r)\<lparr>data_updates := data_updates (requests self r) @ [dec d]\<rparr>)\<rparr>) \<and>
      recv_work_warning dec self h d =
        (Inr True,
         self\<lparr>requests := (requests self)
           (r := (requests self r)\<lparr>warning_updates := warning_updates (requests self r) @ [dec d]\<rparr>)\<rparr>) \<and>
      (flt n = Some a \<and> flt m = Some b \<longrightarrow>
         recv_work_status flt self h n m =
           (Inr True,
            self\<lparr>requests := (requests self)
              (r := (requests self r)\<lparr>status_updates := status_updates (requests self r) @ [(a, b)]\<rparr>)\<rparr>)) \<and>
      state (requests (snd (recv_work_data dec self h d)) r) = JOB_QUEUED \<and>
      state (requests (snd (recv_work_warning dec self h d)) r) = JOB_QUEUED \<and>
      state (requests (snd (recv_work_status flt self h n m)) r) = JOB_QUEUED)"
  by (simp add: recv_work_data_def recv_work_warning_def recv_work_status_def
      assert_request_state_def Let_def recv_work_status_state [unfolded recv_work_status_def Let_def]
      split: option.splits)

theorem recv_work_updates_witness:
  "handle_to_request_map queued_client_handler ''H:9'' = None \<and>
   fst (recv_work_data id queued_client_handler ''H:9'' ''part'') = Inl (KeyError ''H:9'') \<and>
   handle_to_request_map queued_client_handler ''H:1'' = Some 0 \<and>
   state (requests queued_client_handler 0) = JOB_QUEUED \<and>
   example_float ''3'' = Some 3 \<and> example_float ''10'' = Some 10 \<and>
   data_updates (requests (snd (recv_work_data id queued_client_handler ''H:1'' ''part'')) 0)
     = [''part''] \<and>
   warning_updates (requests (snd (recv_work_warning id queued_client_handler ''H:1'' ''part'')) 0)
     = [''part''] \<and>
   status_updates
     (requests (snd (recv_work_status example_float queued_client_handler ''H:1'' ''3'' ''10'')) 0)
     = [(3, 10)] \<and>
   state (requests (snd (recv_work_status example_float queued_client_handler ''H:1'' ''3'' ''10'')) 0)
     = JOB_QUEUED"
proof -
  have q: "handle_to_request_map queued_client_handler ''H:9'' = None"
    "handle_to_request_map queued_client_handler ''H:1'' = Some 0"
    "state (requests queued_client_handler 0) = JOB_QUEUED"
    "data_updates (requests queued_client_handler 0) = []"
    "warning_updates (requests queued_client_handler 0) = []"
    "status_updates (requests queued_client_handler 0) = []"
    by (simp_all add: queued_client_handler_eq example_request_def)
  have f: "example_float ''3'' = Some 3" "example_float ''10'' = Some 10"
    by (simp_all add: example_float_def)
  show ?thesis
    using q f recv_work_updates [of queued_client_handler "''H:9''" id "''part''" example_float
        "''3''" "''10''" "''H:1''" 0 3 10]
    by simp
qed

text \<open>
  C3 as stated fails: on a fresh handler, which knows no handle, \<^verbatim>\<open>recv_work_data\<close>
  raises \<^verbatim>\<open>KeyError\<close>, not \<^verbatim>\<open>InvalidClientState\<close>.
\<close>

theorem recv_work_data_unknown_handle_counterexample:
  "handle_to_request_map fresh_client_handler ''H:9'' = None \<and>
   fst (recv_work_data id fresh_client_handler ''H:9'' ''part'') = Inl (KeyError ''H:9'') \<and>
   \<not> raises_InvalidClientState (fst (recv_work_data id fresh_client_handler ''H:9'' ''part''))"
  by (simp add: recv_work_data_def fresh_client_handler_def)

subsection \<open>The frame of a work exception\<close>

text \<open>
  C4.  For a QUEUED request \<open>r\<close> indexed under \<open>h\<close>, \<^verbatim>\<open>recv_work_exception\<close> returns
  \<^verbatim>\<open>True\<close> and sets the request's \<open>exception\<close> to the decoded data.  Nothing else
  changes: the request stays QUEUED, its result, its three update sequences, its job and
  its server status are as before, every other request is untouched, and so are the
  handler's queue, its handle index and the commands it has sent.
\<close>

theorem recv_work_exception_frame:
  assumes "handle_to_request_map self h = Some r"
    and "state (requests self r) = JOB_QUEUED"
    and "self1 = snd (recv_work_exception dec self h d)"
  shows "recv_work_exception dec self h d =
      (Inr True,
       self\<lparr>requests := (requests self)
         (r := (requests self r)\<lparr>exception := Some (dec d)\<rparr>)\<rparr>) \<and>
    exception (requests self1 r) = Some (dec d) \<and>
    state (requests self1 r) = JOB_QUEUED \<and>
    result (requests self1 r) = result (requests self r) \<and>
    data_updates (requests self1 r) = data_updates (requests self r) \<and>
    warning_updates (requests self1 r) = warning_updates (requests self r) \<and>
    status_updates (requests self1 r) = status_updates (requests self r) \<and>
    job (requests self1 r) = job (requests self r) \<and>
    server_status (requests self1 r) = server_status (requests self r) \<and>
    (\<forall>r1. r1 \<noteq> r \<longrightarrow> requests self1 r1 = requests self r1) \<and>
    requests_awaiting_handles self1 = requests_awaiting_handles self \<and>
    handle_to_request_map self1 = handle_to_request_map self \<and>
    sent_commands self1 = sent_commands self"
  using assms by (simp add: recv_work_exception_def assert_request_state_def Let_def)

theorem recv_work_exception_frame_witness:
  "handle_to_request_map queued_client_handler ''H:1'' = Some 0 \<and>
   state (requests queued_client_handler 0) = JOB_QUEUED \<and>
   exception (requests (snd (recv_work_exception id queued_client_handler ''H:1'' ''boom'')) 0)
     = Some ''boom'' \<and>
   state (requests (snd (recv_work_exception id queued_client_handler ''H:1'' ''boom'')) 0)
     = JOB_QUEUED \<and>
   result (requests (snd (recv_work_exception id queued_client_handler ''H:1'' ''boom'')) 0)
     = None"
proof -
  have q: "handle_to_request_map queued_client_handler ''H:1'' = Some 0"
    "state (requests queued_client_handler 0) = JOB_QUEUED"
    "result (requests queued_client_handler 0) = None"
    by (simp_all add: queued_client_handler_eq example_request_def)
  show ?thesis
    using q recv_work_exception_frame [OF q(1) q(2) refl, of id "''boom''"]
    by simp
qed

section \<open>Properties of the worker\<close>

subsection \<open>The job lock\<close>

text \<open>
  C5 (amended).  For a command handler \<open>h\<close> that is a key of
  \<open>handler_to_connection_map\<close>: acquiring succeeds and makes \<open>h\<close> the holder exactly
  when no handler holds the lock, and releasing succeeds and clears the holder exactly
  when \<open>h\<close> is the holder.  For a handler \<open>h0\<close> that is not a key of the map, the call
  fails whatever the lock's state.  Every failing call returns \<^verbatim>\<open>False\<close> and leaves the
  worker, and so the holder, unchanged.
\<close>

theorem set_job_lock_registered:
  "(h \<in> fst ` set (handler_to_connection_map self) \<longrightarrow>
      set_job_lock self h True =
        (if command_handler_holding_job_lock self = None
         then (True, self\<lparr>command_handler_holding_job_lock := Some h\<rparr>) else (False, self)) \<and>
      set_job_lock self h False =
        (if command_handler_holding_job_lock self = Some h
         then (True, self\<lparr>command_handler_holding_job_lock := None\<rparr>) else (False, self))) \<and>
   (h0 \<notin> fst ` set (handler_to_connection_map self) \<longrightarrow>
      set_job_lock self h0 lock = (False, self))"
  by (simp add: set_job_lock_def Let_def)

theorem set_job_lock_registered_witness:
  "1 \<in> fst ` set (handler_to_connection_map example_worker) \<and>
   7 \<notin> fst ` set (handler_to_connection_map example_worker) \<and>
   command_handler_holding_job_lock example_worker = None \<and>
   set_job_lock example_worker 1 True =
     (True, example_worker\<lparr>command_handler_holding_job_lock := Some 1\<rparr>) \<and>
   set_job_lock example_worker 1 False = (False, example_worker) \<and>
   set_job_lock example_worker 7 False = (False, example_worker)"
proof -
  have w: "1 \<in> fst ` set (handler_to_connection_map example_worker)"
    "7 \<notin> fst ` set (handler_to_connection_map example_worker)"
    "command_handler_holding_job_lock example_worker = None"
    by (simp_all add: example_worker_def)
  show ?thesis
    using w set_job_lock_registered [of 1 example_worker 7 False]
    by simp
qed

text \<open>
  C5 as stated fails: no handler holds the lock of the example worker, and still a
  handler that is not in \<open>handler_to_connection_map\<close> cannot acquire it.
\<close>

theorem set_job_lock_unregistered_counterexample:
  "command_handler_holding_job_lock example_worker = None \<and>
   set_job_lock example_worker 7 True = (False, example_worker)"
  by (simp add: set_job_lock_def example_worker_def)

subsection \<open>Executing a job\<close>

text \<open>
  C8 (amended).  The job's task has the registered callback \<open>cb\<close>; running it once on
  the job yields the outcome \<open>out\<close> and leaves the worker as \<open>self1\<close>, in which the
  job's connection has the command handler \<open>h\<close>.  If the callback returned \<open>r\<close>,
  \<^verbatim>\<open>on_job_execute\<close> returns \<^verbatim>\<open>True\<close> and the worker is \<open>self1\<close> with one more
  command sent, WORK\_COMPLETE with the job's handle and \<open>r\<close>, through \<open>h\<close>.  If the
  callback raised an instance of \<^verbatim>\<open>Exception\<close>, \<^verbatim>\<open>on_job_execute\<close> returns \<^verbatim>\<open>False\<close>
  and the one command sent is WORK\_FAIL with the job's handle: no WORK\_COMPLETE.  In
  both cases the worker differs from \<open>self1\<close>, the state after a single run of the
  callback, by that command only.  If the callback raised an exception outside the
  \<^verbatim>\<open>Exception\<close> hierarchy, \<^verbatim>\<open>on_job_execute\<close> does not catch it: the exception
  propagates and nothing is sent.
\<close>

theorem on_job_execute_outcome:
  assumes "map_of (worker_abilities self) (task j) = Some cb"
    and "call cb j self = (out, self1)"
    and "connection_to_handler_map self1 (connection j) = Some h"
  shows "(out = Returned r \<longrightarrow>
            on_job_execute call self j =
              (Inr True, self1\<lparr>outbound := outbound self1 @ [(h, WORK_COMPLETE (handle j) r)]\<rparr>)) \<and>
         (out = Raised_Exception e \<longrightarrow>
            on_job_execute call self j =
              (Inr False, self1\<lparr>outbound := outbound self1 @ [(h, WORK_FAIL (handle j))]\<rparr>)) \<and>
         (out = Raised_BaseException e \<longrightarrow>
            on_job_execute call self j = (Inl (Uncaught e), self1))"
  using assms
  by (simp add: on_job_execute_def on_job_complete_def on_job_exception_def
      send_job_complete_def send_job_failure_def get_handler_for_job_def
      handler_send_job_complete_def handler_send_job_failure_def)

lemma example_call_reverse:
  "example_call 0 reverse_job example_worker =
     (Returned ''cba'', example_worker\<lparr>outbound := [(1, WORK_DATA (Some ''H:1'') ''half'')]\<rparr>)"
  by (simp add: example_call_def reverse_job_def example_worker_def send_job_data_def
      get_handler_for_job_def handler_send_job_data_def)

lemma example_call_explode:
  "example_call 1 explode_job example_worker = (Raised_Exception ''boom'', example_worker)"
  by (simp add: example_call_def)

lemma example_call_quit:
  "example_call 2 quit_job example_worker = (Raised_BaseException ''SystemExit'', example_worker)"
  by (simp add: example_call_def)

theorem on_job_execute_outcome_witness:
  "map_of (worker_abilities example_worker) (task reverse_job) = Some 0 \<and>
   map_of (worker_abilities example_worker) (task explode_job) = Some 1 \<and>
   connection_to_handler_map example_worker (connection reverse_job) = Some 1 \<and>
   connection_to_handler_map example_worker (connection explode_job) = Some 1 \<and>
   on_job_execute example_call example_worker reverse_job =
     (Inr True,
      example_worker\<lparr>outbound := [(1, WORK_DATA (Some ''H:1'') ''half''),
                                  (1, WORK_COMPLETE (Some ''H:1'') ''cba'')]\<rparr>) \<and>
   on_job_execute example_call example_worker explode_job =
     (Inr False, example_worker\<lparr>outbound := [(1, WORK_FAIL (Some ''H:2''))]\<rparr>) \<and>
   on_job_execute example_call example_worker quit_job =
     (Inl (Uncaught ''SystemExit''), example_worker)"
proof -
  have b: "map_of (worker_abilities example_worker) (task quit_job) = Some 2"
    "connection_to_handler_map example_worker (connection quit_job) = Some 1"
    by (simp_all add: example_worker_def quit_job_def)
  have a: "map_of (worker_abilities example_worker) (task reverse_job) = Some 0"
    "map_of (worker_abilities example_worker) (task explode_job) = Some 1"
    by (simp_all add: example_worker_def reverse_job_def explode_job_def)
  have c: "connection_to_handler_map example_worker (connection reverse_job) = Some 1"
    "connection_to_handler_map example_worker (connection explode_job) = Some 1"
    by (simp_all add: example_worker_def reverse_job_def explode_job_def)
  have c1: "connection_to_handler_map
      (example_worker\<lparr>outbound := [(1, WORK_DATA (Some ''H:1'') ''half'')]\<rparr>)
      (connection reverse_job) = Some 1"
    using c(1) by simp
  have o: "outbound example_worker = []"
    by (simp add: example_worker_def)
  show ?thesis
    using a c o
      on_job_execute_outcome [where call = example_call and cb = 0 and j = reverse_job
        and self = example_worker and r = "''cba''" and e = "''boom''",
        OF a(1) example_call_reverse c1]
      on_job_execute_outcome [where call = example_call and cb = 1 and j = explode_job
        and self = example_worker and r = "''cba''" and e = "''boom''",
        OF a(2) example_call_explode c(2)]
      on_job_execute_outcome [where call = example_call and cb = 2 and j = quit_job
        and self = example_worker and r = "''cba''" and e = "''SystemExit''",
        OF b(1) example_call_quit b(2)]
    by (simp add: reverse_job_def explode_job_def)
qed

text \<open>
  C8 as stated fails: the callback of the task \<open>quit\<close> is registered and raises
  \<^verbatim>\<open>SystemExit\<close>; \<^verbatim>\<open>on_job_execute\<close> does not return \<^verbatim>\<open>False\<close> but lets the
  exception through, and no WORK\_FAIL is sent.
\<close>

theorem on_job_execute_uncaught_counterexample:
  "map_of (worker_abilities example_worker) (task quit_job) = Some 2 \<and>
   example_call 2 quit_job example_worker = (Raised_BaseException ''SystemExit'', example_worker) \<and>
   fst (on_job_execute example_call example_worker quit_job) = Inl (Uncaught ''SystemExit'') \<and>
   fst (on_job_execute example_call example_worker quit_job) \<noteq> Inr False \<and>
   outbound (snd (on_job_execute example_call example_worker quit_job)) = []"
  by (simp add: on_job_execute_def example_call_def example_worker_def quit_job_def)

subsection \<open>Failing a job with an exception\<close>

text \<open>
  C9.  When the job's connection has the command handler \<open>h\<close>, \<^verbatim>\<open>send_job_exception\<close>
  sends exactly two commands through it, WORK\_EXCEPTION with the job's handle and the
  data and then WORK\_FAIL with the job's handle, in that order.  Otherwise the handler
  lookup raises \<^verbatim>\<open>KeyError\<close> before anything is sent and the worker is unchanged.  So
  the method never sends a WORK\_EXCEPTION without failing the job right after it.
\<close>

theorem send_job_exception_fails_job:
  "(connection_to_handler_map self (connection j) = Some h \<longrightarrow>
      send_job_exception self j d =
        (Inr (), self\<lparr>outbound := outbound self @
                   [(h, WORK_EXCEPTION (handle j) d), (h, WORK_FAIL (handle j))]\<rparr>)) \<and>
   (connection_to_handler_map self (connection j) = None \<longrightarrow>
      send_job_exception self j d = (Inl (Connection_KeyError (connection j)), self))"
  by (simp add: send_job_exception_def get_handler_for_job_def handler_send_job_exception_def
      handler_send_job_failure_def Let_def)

theorem send_job_exception_fails_job_witness:
  "connection_to_handler_map example_worker (connection reverse_job) = Some 1 \<and>
   connection_to_handler_map example_worker (connection stray_job) = None \<and>
   (send_job_exception example_worker reverse_job ''boom''
      :: (string worker_error + unit) \<times> (nat, string) worker) =
     (Inr (), example_worker\<lparr>outbound := [(1, WORK_EXCEPTION (Some ''H:1'') ''boom''),
                                           (1, WORK_FAIL (Some ''H:1''))]\<rparr>) \<and>
   (send_job_exception example_worker stray_job ''boom''
      :: (string worker_error + unit) \<times> (nat, string) worker) =
     (Inl (Connection_KeyError 9), example_worker)"
proof -
  have c: "connection_to_handler_map example_worker (connection reverse_job) = Some 1"
    "connection_to_handler_map example_worker (connection stray_job) = None"
    "outbound example_worker = []"
    by (simp_all add: example_worker_def reverse_job_def stray_job_def)
  show ?thesis
    using c
      send_job_exception_fails_job [of example_worker reverse_job 1 "''boom''",
        where ?'c = string]
      send_job_exception_fails_job [of example_worker stray_job 1 "''boom''",
        where ?'c = string]
    by (simp add: reverse_job_def stray_job_def)
qed

subsection \<open>Unregistering a task\<close>

lemma foldl_set_abilities_fields:
  "worker_abilities
     (foldl (\<lambda>w c. handler_set_abilities w c (abilities (handler_initial_state w))) self hs)
     = worker_abilities self"
  "handler_initial_state
     (foldl (\<lambda>w c. handler_set_abilities w c (abilities (handler_initial_state w))) self hs)
     = handler_initial_state self"
  "worker_client_id
     (foldl (\<lambda>w c. handler_set_abilities w c (abilities (handler_initial_state w))) self hs)
     = worker_client_id self"
  by (induction hs arbitrary: self) (simp_all add: handler_set_abilities_def)

lemma set_abilities_on_all_fields:
  "worker_abilities (set_abilities_on_all self) = worker_abilities self"
  "handler_initial_state (set_abilities_on_all self) = handler_initial_state self"
  "worker_client_id (set_abilities_on_all self) = worker_client_id self"
  by (simp_all add: set_abilities_on_all_def foldl_set_abilities_fields)

lemma unregister_task_fields:
  "fst (unregister_task self tk) = tk"
  "worker_abilities (snd (unregister_task self tk)) = AList.delete tk (worker_abilities self)"
  "handler_initial_state (snd (unregister_task self tk)) =
     (handler_initial_state self)\<lparr>abilities := map fst (AList.delete tk (worker_abilities self)),
                                  client_id := worker_client_id self\<rparr>"
  "worker_client_id (snd (unregister_task self tk)) = worker_client_id self"
  by (simp_all add: unregister_task_def set_abilities_on_all_fields update_initial_state_def)

text \<open>
  C10.  \<^verbatim>\<open>unregister_task\<close> has no failing path: for every worker and every task name,
  registered or not, it returns the task name.  After one call \<open>worker_abilities\<close> has no
  entry for the task, and a second call with the same task leaves \<open>worker_abilities\<close>
  and \<open>handler_initial_state\<close> exactly as the first call left them.  For a task that
  was never registered, already the first call leaves \<open>worker_abilities\<close> as it was.
\<close>

theorem unregister_task_idempotent:
  "fst (unregister_task self tk) = tk \<and>
   map_of (worker_abilities (snd (unregister_task self tk))) tk = None \<and>
   tk \<notin> fst ` set (worker_abilities (snd (unregister_task self tk))) \<and>
   fst (unregister_task (snd (unregister_task self tk)) tk) = tk \<and>
   worker_abilities (snd (unregister_task (snd (unregister_task self tk)) tk)) =
     worker_abilities (snd (unregister_task self tk)) \<and>
   handler_initial_state (snd (unregister_task (snd (unregister_task self tk)) tk)) =
     handler_initial_state (snd (unregister_task self tk)) \<and>
   (map_of (worker_abilities self) tk = None \<longrightarrow>
      worker_abilities (snd (unregister_task self tk)) = worker_abilities self)"
  by (simp add: unregister_task_fields delete_idem delete_conv' map_of_eq_None_iff
      delete_notin_dom)

theorem unregister_task_idempotent_witness:
  "map_of (worker_abilities example_worker) ''sort'' = None \<and>
   unregister_task example_worker ''sort'' =
     (''sort'', example_worker\<lparr>outbound :=
        [(1, RESET_ABILITIES), (1, CAN_DO ''reverse''), (1, CAN_DO ''explode''),
         (1, CAN_DO ''quit'')]\<rparr>) \<and>
   worker_abilities (snd (unregister_task example_worker ''reverse'')) =
     [(''explode'', 1), (''quit'', 2)] \<and>
   abilities (handler_initial_state (snd (unregister_task example_worker ''reverse''))) =
     [''explode'', ''quit''] \<and>
   worker_abilities
     (snd (unregister_task (snd (unregister_task example_worker ''reverse'')) ''reverse'')) =
     [(''explode'', 1), (''quit'', 2)]"
proof -
  have a: "map_of (worker_abilities example_worker) ''sort'' = None"
    by (simp add: example_worker_def)
  have u: "unregister_task example_worker ''sort'' =
     (''sort'', example_worker\<lparr>outbound :=
        [(1, RESET_ABILITIES), (1, CAN_DO ''reverse''), (1, CAN_DO ''explode''),
         (1, CAN_DO ''quit'')]\<rparr>)"
    by (simp add: unregister_task_def example_worker_def update_initial_state_def
        set_abilities_on_all_def handler_set_abilities_def)
  have r: "worker_abilities (snd (unregister_task example_worker ''reverse'')) =
       [(''explode'', 1), (''quit'', 2)]"
    "abilities (handler_initial_state (snd (unregister_task example_worker ''reverse''))) =
       [''explode'', ''quit'']"
    by (simp_all add: unregister_task_fields example_worker_def)
  show ?thesis
    using a u r unregister_task_idempotent [of example_worker "''reverse''"]
      unregister_task_idempotent [of example_worker "''sort''"]
    by simp
qed

section \<open>Properties of the admin client\<close>

subsection \<open>Checking the kind of a response\<close>

text \<open>
  C6.  The poll leaves the handler as \<open>h1\<close> with \<open>response_ready\<close> set and the response
  \<open>(x, resp)\<close> at the head of the response queue.  Waiting for a response of kind \<open>y\<close>
  pops that response.  If \<open>x\<close> differs from \<open>y\<close> the call raises
  \<^verbatim>\<open>InvalidAdminClientState\<close> naming both kinds; if the kinds match it returns \<open>resp\<close>.
  Either way the handler is left with the rest of the queue: the mismatched response is
  gone, not kept for the next call.
\<close>

theorem wait_kind_checking:
  assumes "poll (\<lambda>h. \<not> response_ready h) (admin_client_timeout self) (current_handler self) = h1"
    and "response_ready h1"
    and "response_queue h1 = (x, resp) # rest"
  shows "(x \<noteq> y \<longrightarrow>
           wait_until_server_responds poll self y =
             (Inl (InvalidAdminClientState
                     ''Received an unexpected response... got command %r, expecting command %r''
                     [Arg_command x, Arg_command y]),
              self\<lparr>current_handler := h1\<lparr>response_queue := rest, response_ready := (rest \<noteq> [])\<rparr>\<rparr>)) \<and>
         (x = y \<longrightarrow>
           wait_until_server_responds poll self y =
             (Inr resp,
              self\<lparr>current_handler := h1\<lparr>response_queue := rest, response_ready := (rest \<noteq> [])\<rparr>\<rparr>)) \<and>
         response_queue (current_handler (snd (wait_until_server_responds poll self y))) = rest"
  using assms by (simp add: wait_until_server_responds_def pop_response_def Let_def)

lemma version_poll_example:
  "version_poll (\<lambda>h. \<not> response_ready h) (admin_client_timeout example_admin_client)
     (current_handler example_admin_client) =
   \<lparr>pending_commands = [], response_ready = True,
    response_queue = [(GEARMAN_SERVER_COMMAND_VERSION, Response_text ''0.13'')],
    sent_lines = []\<rparr>"
  by (simp add: version_poll_def example_admin_client_def)

theorem wait_kind_checking_witness:
  "fst (wait_until_server_responds version_poll example_admin_client GEARMAN_SERVER_COMMAND_STATUS)
     = Inl (InvalidAdminClientState
              ''Received an unexpected response... got command %r, expecting command %r''
              [Arg_command GEARMAN_SERVER_COMMAND_VERSION,
               Arg_command GEARMAN_SERVER_COMMAND_STATUS]) \<and>
   response_queue (current_handler (snd
     (wait_until_server_responds version_poll example_admin_client GEARMAN_SERVER_COMMAND_STATUS)))
     = [] \<and>
   fst (wait_until_server_responds version_poll example_admin_client GEARMAN_SERVER_COMMAND_VERSION)
     = Inr (Response_text ''0.13'')"
proof -
  let ?h1 = "\<lparr>pending_commands = [], response_ready = True,
      response_queue = [(GEARMAN_SERVER_COMMAND_VERSION, Response_text ''0.13'')],
      sent_lines = []\<rparr>"
  have r: "response_ready ?h1" by simp
  have q: "response_queue ?h1 = (GEARMAN_SERVER_COMMAND_VERSION, Response_text ''0.13'') # []"
    by simp
  show ?thesis
    using wait_kind_checking [where poll = version_poll and self = example_admin_client
        and y = GEARMAN_SERVER_COMMAND_STATUS, OF version_poll_example r q]
      wait_kind_checking [where poll = version_poll and self = example_admin_client
        and y = GEARMAN_SERVER_COMMAND_VERSION, OF version_poll_example r q]
    by simp
qed

subsection \<open>Timing out\<close>

text \<open>
  C7.  If the poll returns and the handler's \<open>response_ready\<close> is still false,
  \<^verbatim>\<open>wait_until_server_responds\<close> raises \<^verbatim>\<open>InvalidAdminClientState\<close> with the message
  "Admin client timed out after \%f second(s)" applied to \<open>admin_client_timeout\<close>; it
  returns no value and pops nothing.  Each public call sends its command, which clears
  \<open>response_ready\<close>, and then waits: when no poll makes a response ready, each of
  \<^verbatim>\<open>get_status\<close>, \<^verbatim>\<open>get_version\<close>, \<^verbatim>\<open>get_workers\<close>, \<^verbatim>\<open>send_maxqueue\<close>,
  \<^verbatim>\<open>send_shutdown\<close> and \<^verbatim>\<open>ping_server\<close> raises that same exception.
\<close>

theorem wait_timeout:
  "(\<not> response_ready
        (poll (\<lambda>h. \<not> response_ready h) (admin_client_timeout self) (current_handler self)) \<longrightarrow>
      wait_until_server_responds poll self y =
        (Inl (InvalidAdminClientState ''Admin client timed out after %f second(s)''
                [Arg_seconds (admin_client_timeout self)]),
         self\<lparr>current_handler :=
                poll (\<lambda>h. \<not> response_ready h) (admin_client_timeout self) (current_handler self)\<rparr>)) \<and>
   ((\<forall>h. \<not> response_ready h \<longrightarrow>
          \<not> response_ready (poll (\<lambda>h. \<not> response_ready h) (admin_client_timeout self) h)) \<longrightarrow>
      fst (get_status poll self) =
        Inl (InvalidAdminClientState ''Admin client timed out after %f second(s)''
               [Arg_seconds (admin_client_timeout self)]) \<and>
      fst (get_version poll self) =
        Inl (InvalidAdminClientState ''Admin client timed out after %f second(s)''
               [Arg_seconds (admin_client_timeout self)]) \<and>
      fst (get_workers poll self) =
        Inl (InvalidAdminClientState ''Admin client timed out after %f second(s)''
               [Arg_seconds (admin_client_timeout self)]) \<and>
      fst (send_maxqueue poll self tk max_size) =
        Inl (InvalidAdminClientState ''Admin client timed out after %f second(s)''
               [Arg_seconds (admin_client_timeout self)]) \<and>
      fst (send_shutdown poll self graceful) =
        Inl (InvalidAdminClientState ''Admin client timed out after %f second(s)''
               [Arg_seconds (admin_client_timeout self)]) \<and>
      fst (ping_server poll start_time end_time self) =
        Inl (InvalidAdminClientState ''Admin client timed out after %f second(s)''
               [Arg_seconds (admin_client_timeout self)]))"
  by (simp add: get_status_def get_version_def get_workers_def send_maxqueue_def
      send_shutdown_def ping_server_def wait_until_server_responds_def Let_def
      send_text_command_def send_echo_request_def)

theorem wait_timeout_witness:
  "\<not> response_ready
       (silent_poll (\<lambda>h. \<not> response_ready h) (admin_client_timeout example_admin_client)
          (current_handler example_admin_client)) \<and>
   wait_until_server_responds silent_poll example_admin_client GEARMAN_SERVER_COMMAND_STATUS =
     (Inl (InvalidAdminClientState ''Admin client timed out after %f second(s)''
             [Arg_seconds (1 / 10)]), example_admin_client) \<and>
   fst (get_status silent_poll example_admin_client) =
     Inl (InvalidAdminClientState ''Admin client timed out after %f second(s)''
            [Arg_seconds (1 / 10)]) \<and>
   fst (ping_server silent_poll 0 1 example_admin_client) =
     Inl (InvalidAdminClientState ''Admin client timed out after %f second(s)''
            [Arg_seconds (1 / 10)])"
proof -
  have n: "\<not> response_ready
       (silent_poll (\<lambda>h. \<not> response_ready h) (admin_client_timeout example_admin_client)
          (current_handler example_admin_client))"
    by (simp add: silent_poll_def example_admin_client_def)
  have s: "\<forall>h. \<not> response_ready h \<longrightarrow>
       \<not> response_ready
          (silent_poll (\<lambda>h. \<not> response_ready h) (admin_client_timeout example_admin_client) h)"
    by (simp add: silent_poll_def)
  have t: "admin_client_timeout example_admin_client = 1 / 10"
    by (simp add: example_admin_client_def)
  have e: "example_admin_client\<lparr>current_handler :=
      silent_poll (\<lambda>h. \<not> response_ready h) (1 / 10) (current_handler example_admin_client)\<rparr>
      = example_admin_client"
    by (simp add: silent_poll_def)
  show ?thesis
    using n s wait_timeout [of silent_poll example_admin_client GEARMAN_SERVER_COMMAND_STATUS
        "''reverse''" "''5''" True 0 1]
    by (simp add: t e)
qed

end
